theory Spec2Isabelle
  imports Main "HOL-Library.Word"
begin

unbundle bit_operations_syntax

section \<open>The RISC-V 64 backend of the linker (src/elf/arch-riscv64.cc)\<close>

text \<open>
  A shallow embedding of the architecture backend: the bit-field codec, the PLT stub
  emitters, the applier of the unwind table, the relocation applier
  (\<open>apply_reloc_alloc\<close>) and the relocation classifier (\<open>scan_relocations\<close>).

  Machine integers are words of their width (\<open>u8\<close>, \<open>u16\<close>, \<open>u32\<close>, \<open>u64\<close>):
  \<open>+\<close> and \<open>-\<close> wrap, a narrowing conversion is \<open>ucast\<close>. The output buffer
  \<open>ctx.buf\<close> is a byte store indexed by the byte offset from its start; a pointer into
  it is that offset, and a \<open>u16\<close>, \<open>u32\<close> or \<open>u64\<close> access through a cast pointer
  reads or writes the bytes in little-endian order, as on the hosts and the target the
  linker runs for.
\<close>

subsection \<open>Machine words and the byte store\<close>

type_synonym u8 = "8 word"
type_synonym u16 = "16 word"
type_synonym u32 = "32 word"
type_synonym u64 = "64 word"

type_synonym mem = "nat \<Rightarrow> u8"

definition load_u16 :: "mem \<Rightarrow> nat \<Rightarrow> u16" where
  "load_u16 m a = ucast (m a) OR push_bit 8 (ucast (m (a + 1)))"

definition load_u32 :: "mem \<Rightarrow> nat \<Rightarrow> u32" where
  "load_u32 m a =
     ucast (m a) OR push_bit 8 (ucast (m (a + 1))) OR
     push_bit 16 (ucast (m (a + 2))) OR push_bit 24 (ucast (m (a + 3)))"

definition load_u64 :: "mem \<Rightarrow> nat \<Rightarrow> u64" where
  "load_u64 m a =
     ucast (m a) OR push_bit 8 (ucast (m (a + 1))) OR
     push_bit 16 (ucast (m (a + 2))) OR push_bit 24 (ucast (m (a + 3))) OR
     push_bit 32 (ucast (m (a + 4))) OR push_bit 40 (ucast (m (a + 5))) OR
     push_bit 48 (ucast (m (a + 6))) OR push_bit 56 (ucast (m (a + 7)))"

definition store_u8 :: "mem \<Rightarrow> nat \<Rightarrow> u8 \<Rightarrow> mem" where
  "store_u8 m a v = m(a := v)"

definition store_u16 :: "mem \<Rightarrow> nat \<Rightarrow> u16 \<Rightarrow> mem" where
  "store_u16 m a v = m(a := ucast v, a + 1 := ucast (drop_bit 8 v))"

definition store_u32 :: "mem \<Rightarrow> nat \<Rightarrow> u32 \<Rightarrow> mem" where
  "store_u32 m a v =
     m(a := ucast v, a + 1 := ucast (drop_bit 8 v),
       a + 2 := ucast (drop_bit 16 v), a + 3 := ucast (drop_bit 24 v))"

definition store_u64 :: "mem \<Rightarrow> nat \<Rightarrow> u64 \<Rightarrow> mem" where
  "store_u64 m a v =
     m(a := ucast v, a + 1 := ucast (drop_bit 8 v),
       a + 2 := ucast (drop_bit 16 v), a + 3 := ucast (drop_bit 24 v),
       a + 4 := ucast (drop_bit 32 v), a + 5 := ucast (drop_bit 40 v),
       a + 6 := ucast (drop_bit 48 v), a + 7 := ucast (drop_bit 56 v))"

text \<open>\<open>memcpy\<close> of an array of \<open>u32\<close> to a byte address.\<close>

fun store_u32s :: "mem \<Rightarrow> nat \<Rightarrow> u32 list \<Rightarrow> mem" where
  "store_u32s m a [] = m"
| "store_u32s m a (w # ws) = store_u32s (store_u32 m a w) (a + 4) ws"

subsection \<open>Bit-field codec\<close>

text \<open>
  \<open>bit(val, pos)\<close> of the source (the name \<open>bit\<close> is taken in HOL): 1 when bit
  \<open>pos\<close> of \<open>val\<close> is set, else 0.
\<close>

definition bit_of :: "u32 \<Rightarrow> nat \<Rightarrow> u32" where
  "bit_of val pos = (if val AND push_bit pos 1 \<noteq> 0 then 1 else 0)"

text \<open>
  \<open>bits(val, hi, lo)\<close>: \<open>(val >> lo) & ((1LL << (hi - lo + 1)) - 1)\<close>. The mask is a
  64-bit value, so the conjunction is taken at 64 bits and the result narrowed to
  \<open>u32\<close> on return. Every call of the source has constants with \<open>lo \<le> hi\<close>.
\<close>

definition bits :: "u32 \<Rightarrow> nat \<Rightarrow> nat \<Rightarrow> u32" where
  "bits val hi lo =
     ucast ((ucast (drop_bit lo val) :: u64) AND (push_bit (hi - lo + 1) 1 - 1))"

definition itype :: "u32 \<Rightarrow> u32" where
  "itype val = push_bit 20 val"

definition stype :: "u32 \<Rightarrow> u32" where
  "stype val = push_bit 25 (bits val 11 5) OR push_bit 7 (bits val 4 0)"

definition btype :: "u32 \<Rightarrow> u32" where
  "btype val =
     push_bit 31 (bit_of val 12) OR push_bit 25 (bits val 10 5) OR
     push_bit 8 (bits val 4 1) OR push_bit 7 (bit_of val 11)"

definition utype :: "u32 \<Rightarrow> u32" where
  "utype val = push_bit 12 (bits (val + 0x800) 31 12)"

definition jtype :: "u32 \<Rightarrow> u32" where
  "jtype val =
     push_bit 31 (bit_of val 20) OR push_bit 21 (bits val 10 1) OR
     push_bit 20 (bit_of val 11) OR push_bit 12 (bits val 19 12)"

definition cbtype :: "u32 \<Rightarrow> u32" where
  "cbtype val =
     push_bit 12 (bit_of val 8) OR push_bit 11 (bit_of val 4) OR
     push_bit 10 (bit_of val 3) OR push_bit 6 (bit_of val 7) OR
     push_bit 5 (bit_of val 6) OR push_bit 4 (bit_of val 2) OR
     push_bit 3 (bit_of val 1) OR push_bit 2 (bit_of val 5)"

definition cjtype :: "u32 \<Rightarrow> u32" where
  "cjtype val =
     push_bit 12 (bit_of val 11) OR push_bit 11 (bit_of val 4) OR
     push_bit 10 (bit_of val 9) OR push_bit 9 (bit_of val 8) OR
     push_bit 8 (bit_of val 10) OR push_bit 7 (bit_of val 6) OR
     push_bit 6 (bit_of val 7) OR push_bit 5 (bit_of val 3) OR
     push_bit 4 (bit_of val 2) OR push_bit 3 (bit_of val 1) OR
     push_bit 2 (bit_of val 5)"

text \<open>
  The \<open>write_*\<close> functions take the store and the address \<open>loc\<close> of the instruction.
  The masks are the source's binary literals: \<open>0xFFFFF\<close> keeps bits 19..0,
  \<open>0x1FFF07F\<close> keeps bits 24..12 and 6..0, \<open>0xFFF\<close> keeps bits 11..0,
  \<open>0xE383\<close> and \<open>0xE003\<close> are the two 16-bit masks.
\<close>

definition write_itype :: "mem \<Rightarrow> nat \<Rightarrow> u32 \<Rightarrow> mem" where
  "write_itype m loc val = store_u32 m loc ((load_u32 m loc AND 0xFFFFF) OR itype val)"

definition write_stype :: "mem \<Rightarrow> nat \<Rightarrow> u32 \<Rightarrow> mem" where
  "write_stype m loc val = store_u32 m loc ((load_u32 m loc AND 0x1FFF07F) OR stype val)"

definition write_btype :: "mem \<Rightarrow> nat \<Rightarrow> u32 \<Rightarrow> mem" where
  "write_btype m loc val = store_u32 m loc ((load_u32 m loc AND 0x1FFF07F) OR btype val)"

definition write_utype :: "mem \<Rightarrow> nat \<Rightarrow> u32 \<Rightarrow> mem" where
  "write_utype m loc val = store_u32 m loc ((load_u32 m loc AND 0xFFF) OR utype val)"

definition write_jtype :: "mem \<Rightarrow> nat \<Rightarrow> u32 \<Rightarrow> mem" where
  "write_jtype m loc val = store_u32 m loc ((load_u32 m loc AND 0xFFF) OR jtype val)"

definition write_cbtype :: "mem \<Rightarrow> nat \<Rightarrow> u32 \<Rightarrow> mem" where
  "write_cbtype m loc val =
     store_u16 m loc (ucast (((ucast (load_u16 m loc) :: u32) AND 0xE383) OR cbtype val))"

definition write_cjtype :: "mem \<Rightarrow> nat \<Rightarrow> u32 \<Rightarrow> mem" where
  "write_cjtype m loc val =
     store_u16 m loc (ucast (((ucast (load_u16 m loc) :: u32) AND 0xE003) OR cjtype val))"

text \<open>
  What the processor reads back from the two instructions of a U-type/I-type pair: the
  U-type instruction contributes its bits 31..12 in place (the high part, already
  shifted left by 12), the I-type instruction its bits 31..20, sign-extended from 12
  bits.
\<close>

definition decode_utype :: "u32 \<Rightarrow> u32" where
  "decode_utype insn = insn AND 0xFFFFF000"

definition decode_itype :: "u32 \<Rightarrow> u32" where
  "decode_itype insn = signed_drop_bit 20 insn"

subsection \<open>Relocations, symbols, sections\<close>

text \<open>
  The relocation types the file names (the numeric values of the \<open>R_RISCV_*\<close>
  constants are declared outside this file, and the code only compares them);
  \<open>R_RISCV_OTHER n\<close> is any other type number, which takes the \<open>default\<close> branch of
  each \<open>switch\<close>.
\<close>

datatype rel_type =
    R_RISCV_NONE | R_RISCV_32 | R_RISCV_64 | R_RISCV_RELATIVE
  | R_RISCV_TLS_DTPMOD32 | R_RISCV_TLS_DTPMOD64 | R_RISCV_TLS_DTPREL32
  | R_RISCV_TLS_DTPREL64 | R_RISCV_TLS_TPREL32 | R_RISCV_TLS_TPREL64
  | R_RISCV_BRANCH | R_RISCV_JAL | R_RISCV_CALL | R_RISCV_CALL_PLT
  | R_RISCV_GOT_HI20 | R_RISCV_TLS_GOT_HI20 | R_RISCV_TLS_GD_HI20
  | R_RISCV_PCREL_HI20 | R_RISCV_PCREL_LO12_I | R_RISCV_PCREL_LO12_S
  | R_RISCV_HI20 | R_RISCV_LO12_I | R_RISCV_LO12_S
  | R_RISCV_TPREL_HI20 | R_RISCV_TPREL_LO12_I | R_RISCV_TPREL_LO12_S
  | R_RISCV_TPREL_ADD
  | R_RISCV_ADD8 | R_RISCV_ADD16 | R_RISCV_ADD32 | R_RISCV_ADD64
  | R_RISCV_SUB8 | R_RISCV_SUB16 | R_RISCV_SUB32 | R_RISCV_SUB64
  | R_RISCV_ALIGN | R_RISCV_RVC_BRANCH | R_RISCV_RVC_JUMP | R_RISCV_RVC_LUI
  | R_RISCV_RELAX | R_RISCV_SUB6 | R_RISCV_SET6 | R_RISCV_SET8
  | R_RISCV_SET16 | R_RISCV_SET32 | R_RISCV_32_PCREL
  | R_RISCV_OTHER nat

text \<open>\<open>ElfRel<E>\<close>: offset in the section, type, symbol index, addend.\<close>

record elf_rel =
  r_offset :: u64
  r_type :: rel_type
  r_sym :: u32
  r_addend :: u64

text \<open>
  The flag bits the classifier sets on a symbol (\<open>sym.flags |= NEEDS_GOT\<close>), as a set
  of flags: \<open>|=\<close> is insertion.
\<close>

datatype sym_flag = NEEDS_GOT | NEEDS_PLT | NEEDS_COPYREL | NEEDS_DYNREL | NEEDS_BASEREL

text \<open>The four symbol categories of the columns of an Action table.\<close>

datatype sym_category = Absolute | Local | Imported_data | Imported_code

text \<open>
  \<open>Symbol<E>\<close>, by what this file reads of it. The getters that take the context
  (\<open>get_addr(ctx)\<close>, \<open>get_got_addr(ctx)\<close>, ...) are fields: their results are fixed
  once the layout is. \<open>has_file\<close> is \<open>sym.file != nullptr\<close>, \<open>st_type\<close> is
  \<open>get_type()\<close>, \<open>is_undef_weak\<close> is \<open>esym().is_undef_weak()\<close>, \<open>sym_value\<close> is
  \<open>sym.value\<close>, \<open>sym_isec\<close> is the identity of \<open>sym.input_section\<close> (\<open>None\<close> for a null
  pointer). \<open>category\<close> is the column the dispatch helper selects for the symbol.
\<close>

record symbol =
  has_file :: bool
  st_type :: nat
  is_imported :: bool
  is_undef_weak :: bool
  sym_value :: u64
  sym_isec :: "nat option"
  sym_addr :: u64
  got_addr :: u64
  gotplt_addr :: u64
  plt_addr :: u64
  plt_idx :: nat
  pltgot_idx :: nat
  dynsym_idx :: u64
  flags :: "sym_flag set"
  category :: sym_category

definition STT_GNU_IFUNC :: nat where
  "STT_GNU_IFUNC = 10"

text \<open>
  \<open>SectionFragmentRef<E>\<close>: the index of the relocation it overrides, the address of
  the fragment (\<open>frag->get_addr(ctx)\<close>) and the addend.
\<close>

record frag_ref =
  idx :: int
  frag_addr :: u64
  addend :: u64

text \<open>
  \<open>InputSection<E>\<close>, by what this file reads of it: \<open>sec_id\<close> is the identity of the
  section (\<open>this\<close>), \<open>rels\<close> is \<open>get_rels(ctx)\<close>, \<open>file_symbols\<close> is \<open>file.symbols\<close>,
  \<open>rel_fragments\<close> is \<open>None\<close> for a null pointer, \<open>out_sh_addr\<close> is
  \<open>output_section->shdr.sh_addr\<close>, \<open>offset\<close> the offset of the section in its output
  section, \<open>contents\<close> the bytes of the section in the input file.
\<close>

record input_section =
  sec_id :: nat
  sh_alloc :: bool
  rels :: "elf_rel list"
  file_symbols :: "symbol list"
  rel_fragments :: "frag_ref list option"
  needs_dynrel :: "bool list"
  needs_baserel :: "bool list"
  out_sh_addr :: u64
  offset :: u64
  contents :: "u8 list"
  file_reldyn_offset :: u64
  file_num_dynrel :: u64
  reldyn_offset :: u64

text \<open>The three output kinds of the rows of an Action table.\<close>

datatype output_kind = DSO | PIE | PDE

text \<open>
  \<open>Context<E>\<close>, by what this file reads of it, the buffer apart (it is threaded
  through the functions). \<open>reldyn\<close> is \<open>None\<close> when \<open>ctx.reldyn\<close> is null, else the
  \<open>sh_offset\<close> of the section. \<open>is_relr_reloc\<close> is the helper of that name, declared
  outside this file. \<open>output_type\<close> is the kind of file being written, from which the
  dispatch helper selects the row of an Action table.
\<close>

record ctx =
  plt_sh_offset :: u64
  plt_sh_addr :: u64
  gotplt_sh_addr :: u64
  got_sh_addr :: u64
  plt_hdr_size :: u64
  plt_size :: u64
  tls_begin :: u64
  reldyn :: "u64 option"
  is_relr_reloc :: "elf_rel \<Rightarrow> bool"
  output_type :: output_kind

text \<open>
  The diagnostics. \<open>Error(ctx)\<close> records a diagnostic and the function goes on
  (each use is followed by \<open>break\<close>); \<open>Fatal(ctx)\<close> ends the run. A failed \<open>assert\<close>
  and a store through a null pointer end the run too.
\<close>

datatype diag =
    Unsupported_relocation elf_rel
  | Unknown_relocation elf_rel
  | Action_error elf_rel sym_category output_kind
  | Undefined_symbol nat

datatype abort =
    Assertion_failed
  | Null_pointer_store
  | Fatal_unsupported_eh_frame elf_rel

subsection \<open>Stub emitters\<close>

definition plt0 :: "u32 list" where
  "plt0 = [0x00000397, 0x41c30333, 0x0003be03, 0xfd430313,
           0x00038293, 0x00135313, 0x0082b283, 0x000e0067]"

definition write_plt_header :: "ctx \<Rightarrow> mem \<Rightarrow> mem" where
  "write_plt_header c m =
     (let buf = unat (plt_sh_offset c);
          gotplt = gotplt_sh_addr c;
          plt = plt_sh_addr c;
          m1 = store_u32s m buf plt0;
          m2 = write_utype m1 buf (ucast (gotplt - plt));
          m3 = write_itype m2 (buf + 2 * 4) (ucast (gotplt - plt))
      in write_itype m3 (buf + 4 * 4) (ucast (gotplt - plt)))"

definition plt_entry_data :: "u32 list" where
  "plt_entry_data = [0x00000e17, 0x000e3e03, 0x000e0367, 0x00000013]"

definition write_plt_entry :: "ctx \<Rightarrow> symbol \<Rightarrow> mem \<Rightarrow> mem" where
  "write_plt_entry c sy m =
     (let ent = unat (plt_sh_offset c) + unat (plt_hdr_size c) +
                unat (word_of_nat (plt_idx sy) * plt_size c);
          gotplt = gotplt_addr sy;
          plt = plt_addr sy;
          m1 = store_u32s m ent plt_entry_data;
          m2 = write_utype m1 ent (ucast (gotplt - plt))
      in write_itype m2 (ent + 1 * 4) (ucast (gotplt - plt)))"

definition PltSection_copy_buf :: "ctx \<Rightarrow> symbol list \<Rightarrow> mem \<Rightarrow> mem" where
  "PltSection_copy_buf c symbols m = fold (write_plt_entry c) symbols (write_plt_header c m)"

text \<open>
  The body of the loop of \<open>PltGotSection<E>::copy_buf\<close> for one symbol: \<open>buf\<close> is a
  \<open>u32\<close> pointer to \<open>ctx.buf + ctx.plt->shdr.sh_offset\<close>, so \<open>buf + idx * 4\<close> is
  \<open>16 * idx\<close> bytes further.
\<close>

definition pltgot_entry :: "ctx \<Rightarrow> symbol \<Rightarrow> mem \<Rightarrow> mem" where
  "pltgot_entry c sy m =
     (let buf = unat (plt_sh_offset c);
          ent = buf + (pltgot_idx sy * 4) * 4;
          got = got_addr sy;
          plt = plt_addr sy;
          m1 = store_u32s m ent plt_entry_data;
          m2 = write_utype m1 ent (ucast (got - plt))
      in write_itype m2 (ent + 1 * 4) (ucast (got - plt)))"

definition PltGotSection_copy_buf :: "ctx \<Rightarrow> symbol list \<Rightarrow> mem \<Rightarrow> mem" where
  "PltGotSection_copy_buf c symbols m = fold (pltgot_entry c) symbols m"

subsection \<open>The applier of the unwind table\<close>

text \<open>
  \<open>EhFrameSection<E>::apply_reloc\<close>. \<open>sh_offset\<close> and \<open>sh_addr\<close> are those of the
  section's header (\<open>this->shdr\<close>). A compound assignment to a \<open>u8\<close>, \<open>u16\<close> or \<open>u32\<close>
  with the \<open>u64\<close> operand \<open>val\<close> computes at 64 bits and narrows the result.
\<close>

definition EhFrameSection_apply_reloc ::
  "u64 \<Rightarrow> u64 \<Rightarrow> mem \<Rightarrow> elf_rel \<Rightarrow> u64 \<Rightarrow> u64 \<Rightarrow> abort + mem" where
  "EhFrameSection_apply_reloc sh_offset sh_addr m rel offs val =
     (let loc = unat sh_offset + unat offs in
      case r_type rel of
        R_RISCV_ADD32 \<Rightarrow>
          Inr (store_u32 m loc (ucast ((ucast (load_u32 m loc) :: u64) + val)))
      | R_RISCV_SUB8 \<Rightarrow>
          Inr (store_u8 m loc (ucast ((ucast (m loc) :: u64) - val)))
      | R_RISCV_SUB16 \<Rightarrow>
          Inr (store_u16 m loc (ucast ((ucast (load_u16 m loc) :: u64) - val)))
      | R_RISCV_SUB32 \<Rightarrow>
          Inr (store_u32 m loc (ucast ((ucast (load_u32 m loc) :: u64) - val)))
      | R_RISCV_SUB6 \<Rightarrow>
          Inr (store_u8 m loc (ucast (((ucast (m loc) :: u64) - val) AND 0x3F)))
      | R_RISCV_SET6 \<Rightarrow>
          Inr (store_u8 m loc (ucast (((ucast (m loc) :: u64) + val) AND 0x3F)))
      | R_RISCV_SET8 \<Rightarrow> Inr (store_u8 m loc (ucast val))
      | R_RISCV_SET16 \<Rightarrow> Inr (store_u16 m loc (ucast val))
      | R_RISCV_32_PCREL \<Rightarrow> Inr (store_u32 m loc (ucast (val - sh_addr - offs)))
      | _ \<Rightarrow> Inl (Fatal_unsupported_eh_frame rel))"

subsection \<open>The relocation applier\<close>

text \<open>
  The state \<open>apply_reloc_alloc\<close> changes: the output buffer, the dynamic-relocation
  table and the cursor \<open>dynrel\<close> into it, the cursor \<open>frag_idx\<close>, and the diagnostics
  recorded. \<open>dynrel\<close> is the byte offset of the next slot in the buffer (\<open>None\<close> for
  the null pointer), and \<open>reldyn_tab\<close> holds the records stored through it, by the byte
  offset of their slot: the table's slots are reserved for this section by the layout,
  apart from the bytes of the section, so the records are kept as records and not as
  bytes of \<open>buf\<close>.
\<close>

record apply_state =
  buf :: mem
  reldyn_tab :: "nat \<Rightarrow> elf_rel option"
  dynrel :: "nat option"
  frag_idx :: nat
  diags :: "diag list"

text \<open>\<open>sizeof(ElfRel<E>)\<close>: three 64-bit fields.\<close>

definition sizeof_ElfRel :: nat where
  "sizeof_ElfRel = 24"

text \<open>
  \<open>rel_fragments && rel_fragments[frag_idx].idx == i\<close>. The array ends with an entry
  whose \<open>idx\<close> is no relocation index; past the end of the list nothing matches.
\<close>

definition frag_ref_at :: "input_section \<Rightarrow> nat \<Rightarrow> nat \<Rightarrow> frag_ref option" where
  "frag_ref_at sec fidx i =
     (case rel_fragments sec of
        None \<Rightarrow> None
      | Some frs \<Rightarrow>
          if fidx < length frs \<and> idx (frs ! fidx) = int i then Some (frs ! fidx) else None)"

text \<open>The macros \<open>S\<close>, \<open>A\<close>, \<open>P\<close>, \<open>G\<close> and \<open>GOT\<close>.\<close>

definition S_of :: "frag_ref option \<Rightarrow> symbol \<Rightarrow> u64" where
  "S_of fr sy = (case fr of Some f \<Rightarrow> frag_addr f | None \<Rightarrow> sym_addr sy)"

definition A_of :: "frag_ref option \<Rightarrow> elf_rel \<Rightarrow> u64" where
  "A_of fr rel = (case fr of Some f \<Rightarrow> addend f | None \<Rightarrow> r_addend rel)"

definition P_of :: "input_section \<Rightarrow> elf_rel \<Rightarrow> u64" where
  "P_of sec rel = out_sh_addr sec + offset sec + r_offset rel"

definition G_of :: "ctx \<Rightarrow> symbol \<Rightarrow> u64" where
  "G_of c sy = got_addr sy - got_sh_addr c"

definition GOT_of :: "ctx \<Rightarrow> u64" where
  "GOT_of c = got_sh_addr c"

text \<open>\<open>*dynrel++ = r\<close>.\<close>

definition store_dynrel :: "apply_state \<Rightarrow> elf_rel \<Rightarrow> abort + apply_state" where
  "store_dynrel st r =
     (case dynrel st of
        None \<Rightarrow> Inl Null_pointer_store
      | Some p \<Rightarrow>
          Inr (st\<lparr>reldyn_tab := (reldyn_tab st)(p \<mapsto> r), dynrel := Some (p + sizeof_ElfRel)\<rparr>))"

definition unsupported :: "apply_state \<Rightarrow> elf_rel \<Rightarrow> abort + apply_state" where
  "unsupported st rel = Inr (st\<lparr>diags := diags st @ [Unsupported_relocation rel]\<rparr>)"

definition set_buf :: "apply_state \<Rightarrow> mem \<Rightarrow> abort + apply_state" where
  "set_buf st m = Inr (st\<lparr>buf := m\<rparr>)"

text \<open>
  The \<open>switch\<close> of the first loop. \<open>loc\<close> is \<open>base + rel.r_offset\<close>. The two
  \<open>PCREL_LO12\<close> cases read the word at \<open>base + sym.value\<close> after their two assertions.
  The cases \<open>R_RISCV_ADD8\<close> and \<open>R_RISCV_SUB8\<close> are \<open>loc += S + A\<close> and
  \<open>loc -= S + A\<close>: they move the local pointer and store nothing.
\<close>

definition apply_switch ::
  "ctx \<Rightarrow> input_section \<Rightarrow> nat \<Rightarrow> elf_rel \<Rightarrow> symbol \<Rightarrow> nat \<Rightarrow> u64 \<Rightarrow> u64 \<Rightarrow> u64 \<Rightarrow>
   apply_state \<Rightarrow> abort + apply_state" where
  "apply_switch c sec base rel sy loc S A P st =
     (let m = buf st in
      case r_type rel of
        R_RISCV_32 \<Rightarrow> set_buf st (store_u32 m loc (ucast (S + A)))
      | R_RISCV_64 \<Rightarrow> set_buf st (store_u64 m loc (S + A))
      | R_RISCV_TLS_DTPMOD32 \<Rightarrow> unsupported st rel
      | R_RISCV_TLS_DTPMOD64 \<Rightarrow> unsupported st rel
      | R_RISCV_TLS_DTPREL32 \<Rightarrow> unsupported st rel
      | R_RISCV_TLS_DTPREL64 \<Rightarrow> unsupported st rel
      | R_RISCV_TLS_TPREL32 \<Rightarrow> unsupported st rel
      | R_RISCV_TLS_TPREL64 \<Rightarrow> unsupported st rel
      | R_RISCV_BRANCH \<Rightarrow> set_buf st (write_btype m loc (ucast (S + A - P)))
      | R_RISCV_JAL \<Rightarrow> set_buf st (write_jtype m loc (ucast (S + A - P)))
      | R_RISCV_CALL \<Rightarrow>
          (let val = (if is_undef_weak sy then 0 else S + A - P) in
           set_buf st (write_itype (write_utype m loc (ucast val)) (loc + 4) (ucast val)))
      | R_RISCV_CALL_PLT \<Rightarrow>
          (let val = (if is_undef_weak sy then 0 else S + A - P) in
           set_buf st (write_itype (write_utype m loc (ucast val)) (loc + 4) (ucast val)))
      | R_RISCV_GOT_HI20 \<Rightarrow>
          set_buf st (store_u32 m loc (ucast (G_of c sy + GOT_of c + A - P)))
      | R_RISCV_TLS_GOT_HI20 \<Rightarrow> unsupported st rel
      | R_RISCV_TLS_GD_HI20 \<Rightarrow> unsupported st rel
      | R_RISCV_PCREL_HI20 \<Rightarrow>
          (if is_undef_weak sy then set_buf st (store_u32 m loc (ucast P))
           else set_buf st (store_u32 m loc (ucast (S + A - P))))
      | R_RISCV_PCREL_LO12_I \<Rightarrow>
          (if sym_isec sy \<noteq> Some (sec_id sec) then Inl Assertion_failed
           else if \<not> sym_value sy < r_offset rel then Inl Assertion_failed
           else set_buf st (write_itype m loc (load_u32 m (base + unat (sym_value sy)))))
      | R_RISCV_LO12_I \<Rightarrow> set_buf st (write_itype m loc (ucast (S + A)))
      | R_RISCV_TPREL_LO12_I \<Rightarrow> set_buf st (write_itype m loc (ucast (S + A)))
      | R_RISCV_PCREL_LO12_S \<Rightarrow>
          (if sym_isec sy \<noteq> Some (sec_id sec) then Inl Assertion_failed
           else if \<not> sym_value sy < r_offset rel then Inl Assertion_failed
           else set_buf st (write_stype m loc (load_u32 m (base + unat (sym_value sy)))))
      | R_RISCV_LO12_S \<Rightarrow> set_buf st (write_stype m loc (ucast (S + A)))
      | R_RISCV_TPREL_LO12_S \<Rightarrow> set_buf st (write_stype m loc (ucast (S + A)))
      | R_RISCV_HI20 \<Rightarrow> set_buf st (write_utype m loc (ucast (S + A)))
      | R_RISCV_TPREL_HI20 \<Rightarrow> set_buf st (write_utype m loc (ucast (S + A - tls_begin c)))
      | R_RISCV_TPREL_ADD \<Rightarrow> Inr st
      | R_RISCV_ADD8 \<Rightarrow> Inr st
      | R_RISCV_ADD16 \<Rightarrow>
          set_buf st (store_u16 m loc (ucast ((ucast (load_u16 m loc) :: u64) + (S + A))))
      | R_RISCV_ADD32 \<Rightarrow>
          set_buf st (store_u32 m loc (ucast ((ucast (load_u32 m loc) :: u64) + (S + A))))
      | R_RISCV_ADD64 \<Rightarrow> set_buf st (store_u64 m loc (load_u64 m loc + (S + A)))
      | R_RISCV_SUB8 \<Rightarrow> Inr st
      | R_RISCV_SUB16 \<Rightarrow>
          set_buf st (store_u16 m loc (ucast ((ucast (load_u16 m loc) :: u64) - (S + A))))
      | R_RISCV_SUB32 \<Rightarrow>
          set_buf st (store_u32 m loc (ucast ((ucast (load_u32 m loc) :: u64) - (S + A))))
      | R_RISCV_SUB64 \<Rightarrow> set_buf st (store_u64 m loc (load_u64 m loc - (S + A)))
      | R_RISCV_ALIGN \<Rightarrow> Inr st
      | R_RISCV_RVC_BRANCH \<Rightarrow> set_buf st (write_cbtype m loc (ucast (S + A - P)))
      | R_RISCV_RVC_JUMP \<Rightarrow> set_buf st (write_cjtype m loc (ucast (S + A - P)))
      | R_RISCV_RVC_LUI \<Rightarrow> unsupported st rel
      | R_RISCV_RELAX \<Rightarrow> Inr st
      | R_RISCV_SUB6 \<Rightarrow> unsupported st rel
      | R_RISCV_SET6 \<Rightarrow> unsupported st rel
      | R_RISCV_SET8 \<Rightarrow> unsupported st rel
      | R_RISCV_SET16 \<Rightarrow> unsupported st rel
      | R_RISCV_SET32 \<Rightarrow> unsupported st rel
      | R_RISCV_32_PCREL \<Rightarrow> unsupported st rel
      | _ \<Rightarrow> Inr (st\<lparr>diags := diags st @ [Unknown_relocation rel]\<rparr>))"

text \<open>
  The body of the first loop for the relocation of index \<open>i\<close>: the \<open>continue\<close> on
  \<open>R_RISCV_NONE\<close>, the symbol, \<open>loc\<close>, the fragment reference (which advances
  \<open>frag_idx\<close>), the two flagged cases, and the \<open>switch\<close>.
\<close>

definition apply_rel :: "ctx \<Rightarrow> input_section \<Rightarrow> nat \<Rightarrow> nat \<Rightarrow> apply_state \<Rightarrow> abort + apply_state" where
  "apply_rel c sec base i st =
     (let rel = rels sec ! i in
      if r_type rel = R_RISCV_NONE then Inr st
      else
        let sy = file_symbols sec ! unat (r_sym rel);
            loc = base + unat (r_offset rel);
            fr = frag_ref_at sec (frag_idx st) i;
            st1 = (case fr of None \<Rightarrow> st | Some f \<Rightarrow> st\<lparr>frag_idx := frag_idx st + 1\<rparr>);
            S = S_of fr sy;
            A = A_of fr rel;
            P = P_of sec rel
        in if needs_dynrel sec ! i then
             (case store_dynrel st1
                     \<lparr>r_offset = P, r_type = R_RISCV_64,
                      r_sym = ucast (dynsym_idx sy), r_addend = A\<rparr> of
                Inl e \<Rightarrow> Inl e
              | Inr st2 \<Rightarrow> set_buf st2 (store_u64 (buf st2) loc A))
           else if needs_baserel sec ! i then
             (case (if \<not> is_relr_reloc c rel
                    then store_dynrel st1
                           \<lparr>r_offset = P, r_type = R_RISCV_RELATIVE,
                            r_sym = 0, r_addend = S + A\<rparr>
                    else Inr st1) of
                Inl e \<Rightarrow> Inl e
              | Inr st2 \<Rightarrow> set_buf st2 (store_u64 (buf st2) loc (S + A)))
           else apply_switch c sec base rel sy loc S A P st1)"

fun pass1 :: "ctx \<Rightarrow> input_section \<Rightarrow> nat \<Rightarrow> nat list \<Rightarrow> apply_state \<Rightarrow> abort + apply_state" where
  "pass1 c sec base [] st = Inr st"
| "pass1 c sec base (i # js) st =
     (case apply_rel c sec base i st of
        Inl e \<Rightarrow> Inl e
      | Inr st' \<Rightarrow> pass1 c sec base js st')"

text \<open>\<open>*(u32 *)&contents[off]\<close>: four bytes of the input section.\<close>

definition contents_u32 :: "input_section \<Rightarrow> nat \<Rightarrow> u32" where
  "contents_u32 sec off = load_u32 (\<lambda>k. contents sec ! k) off"

text \<open>The body of the second loop, which restores the \<open>HI20\<close> instructions.\<close>

definition restore_word :: "input_section \<Rightarrow> nat \<Rightarrow> elf_rel \<Rightarrow> mem \<Rightarrow> mem" where
  "restore_word sec base r m =
     (let loc = base + unat (r_offset r);
          val = load_u32 m loc
      in write_utype (store_u32 m loc (contents_u32 sec (unat (r_offset r)))) loc val)"

definition restore_hi20 :: "input_section \<Rightarrow> nat \<Rightarrow> elf_rel \<Rightarrow> mem \<Rightarrow> mem" where
  "restore_hi20 sec base r m =
     (case r_type r of
        R_RISCV_GOT_HI20 \<Rightarrow> restore_word sec base r m
      | R_RISCV_PCREL_HI20 \<Rightarrow> restore_word sec base r m
      | _ \<Rightarrow> m)"

definition initial_state :: "ctx \<Rightarrow> input_section \<Rightarrow> mem \<Rightarrow> apply_state" where
  "initial_state c sec m =
     \<lparr>buf = m, reldyn_tab = Map.empty,
      dynrel = (case reldyn c of
                  None \<Rightarrow> None
                | Some off \<Rightarrow>
                    Some (unat off + unat (file_reldyn_offset sec) + unat (reldyn_offset sec))),
      frag_idx = 0, diags = []\<rparr>"

definition apply_reloc_alloc :: "ctx \<Rightarrow> input_section \<Rightarrow> nat \<Rightarrow> mem \<Rightarrow> abort + apply_state" where
  "apply_reloc_alloc c sec base m =
     (case pass1 c sec base [0..<length (rels sec)] (initial_state c sec m) of
        Inl e \<Rightarrow> Inl e
      | Inr st \<Rightarrow> Inr (st\<lparr>buf := fold (restore_hi20 sec base) (rels sec) (buf st)\<rparr>))"

subsection \<open>The relocation classifier\<close>

text \<open>The cells of an Action table.\<close>

datatype action = NONE | ERROR | COPYREL | PLT | DYNREL | BASEREL

text \<open>
  The three tables of \<open>scan_relocations\<close>, as the source writes them. Their rows are
  annotated \<open>DSO\<close>, \<open>PIE\<close>, \<open>PDE\<close> and their columns \<open>Absolute\<close>, \<open>Local\<close>,
  \<open>Imported data\<close>, \<open>Imported code\<close> in the source; \<open>output_row\<close> and \<open>sym_col\<close> are
  the indices of a row and of a column by that annotation.
\<close>

definition table_32_HI20 :: "action list list" where
  "table_32_HI20 =
     [[NONE, NONE, ERROR, ERROR],
      [NONE, NONE, COPYREL, PLT],
      [NONE, NONE, COPYREL, PLT]]"

definition table_64 :: "action list list" where
  "table_64 =
     [[NONE, BASEREL, DYNREL, DYNREL],
      [NONE, BASEREL, DYNREL, DYNREL],
      [NONE, NONE, COPYREL, PLT]]"

definition table_32_PCREL :: "action list list" where
  "table_32_PCREL =
     [[ERROR, NONE, ERROR, ERROR],
      [ERROR, NONE, COPYREL, PLT],
      [NONE, NONE, COPYREL, PLT]]"

fun output_row :: "output_kind \<Rightarrow> nat" where
  "output_row DSO = 0"
| "output_row PIE = 1"
| "output_row PDE = 2"

fun sym_col :: "sym_category \<Rightarrow> nat" where
  "sym_col Absolute = 0"
| "sym_col Local = 1"
| "sym_col Imported_data = 2"
| "sym_col Imported_code = 3"

definition cell :: "action list list \<Rightarrow> output_kind \<Rightarrow> sym_category \<Rightarrow> action" where
  "cell table k cat = table ! output_row k ! sym_col cat"

text \<open>
  Modelled from the spec: the helper \<open>dispatch\<close>, which \<open>scan_relocations\<close> calls and
  which is declared outside this file. By the spec it selects the row of the table from
  the kind of the output file and the column from the category of the symbol, then
  performs the action of the cell: it sets the copy-relocation, PLT, dynamic-relocation
  or base-relocation flag on the symbol, or raises a diagnostic for an \<open>ERROR\<close> cell; a
  \<open>NONE\<close> cell is no action.
\<close>

definition dispatch ::
  "ctx \<Rightarrow> action list list \<Rightarrow> nat \<Rightarrow> elf_rel \<Rightarrow> symbol \<Rightarrow> symbol \<times> diag list" where
  "dispatch c table i rel sy =
     (case cell table (output_type c) (category sy) of
        NONE \<Rightarrow> (sy, [])
      | ERROR \<Rightarrow> (sy, [Action_error rel (category sy) (output_type c)])
      | COPYREL \<Rightarrow> (sy\<lparr>flags := insert NEEDS_COPYREL (flags sy)\<rparr>, [])
      | PLT \<Rightarrow> (sy\<lparr>flags := insert NEEDS_PLT (flags sy)\<rparr>, [])
      | DYNREL \<Rightarrow> (sy\<lparr>flags := insert NEEDS_DYNREL (flags sy)\<rparr>, [])
      | BASEREL \<Rightarrow> (sy\<lparr>flags := insert NEEDS_BASEREL (flags sy)\<rparr>, []))"

text \<open>\<open>sym.flags |= NEEDS_GOT; sym.flags |= NEEDS_PLT\<close> for an indirect function.\<close>

definition mark_ifunc :: "symbol \<Rightarrow> symbol" where
  "mark_ifunc sy =
     (if st_type sy = STT_GNU_IFUNC
      then sy\<lparr>flags := insert NEEDS_PLT (insert NEEDS_GOT (flags sy))\<rparr>
      else sy)"

text \<open>
  The \<open>switch\<close> of \<open>scan_relocations\<close> on a relocation and its symbol: the symbol as
  the case leaves it, and the diagnostics it records.
\<close>

definition scan_switch :: "ctx \<Rightarrow> nat \<Rightarrow> elf_rel \<Rightarrow> symbol \<Rightarrow> symbol \<times> diag list" where
  "scan_switch c i rel sy =
     (case r_type rel of
        R_RISCV_32 \<Rightarrow> dispatch c table_32_HI20 i rel sy
      | R_RISCV_HI20 \<Rightarrow> dispatch c table_32_HI20 i rel sy
      | R_RISCV_64 \<Rightarrow> dispatch c table_64 i rel sy
      | R_RISCV_TLS_DTPMOD32 \<Rightarrow> (sy, [Unsupported_relocation rel])
      | R_RISCV_TLS_DTPMOD64 \<Rightarrow> (sy, [Unsupported_relocation rel])
      | R_RISCV_TLS_DTPREL32 \<Rightarrow> (sy, [Unsupported_relocation rel])
      | R_RISCV_TLS_DTPREL64 \<Rightarrow> (sy, [Unsupported_relocation rel])
      | R_RISCV_TLS_TPREL32 \<Rightarrow> (sy, [Unsupported_relocation rel])
      | R_RISCV_TLS_TPREL64 \<Rightarrow> (sy, [Unsupported_relocation rel])
      | R_RISCV_BRANCH \<Rightarrow> (sy, [])
      | R_RISCV_JAL \<Rightarrow> (sy, [])
      | R_RISCV_CALL \<Rightarrow>
          (if is_imported sy then (sy\<lparr>flags := insert NEEDS_PLT (flags sy)\<rparr>, []) else (sy, []))
      | R_RISCV_CALL_PLT \<Rightarrow>
          (if is_imported sy then (sy\<lparr>flags := insert NEEDS_PLT (flags sy)\<rparr>, []) else (sy, []))
      | R_RISCV_GOT_HI20 \<Rightarrow> (sy\<lparr>flags := insert NEEDS_GOT (flags sy)\<rparr>, [])
      | R_RISCV_TLS_GOT_HI20 \<Rightarrow> (sy, [Unsupported_relocation rel])
      | R_RISCV_TLS_GD_HI20 \<Rightarrow> (sy, [Unsupported_relocation rel])
      | R_RISCV_PCREL_HI20 \<Rightarrow> (sy, [])
      | R_RISCV_PCREL_LO12_I \<Rightarrow> (sy, [])
      | R_RISCV_PCREL_LO12_S \<Rightarrow> (sy, [])
      | R_RISCV_LO12_I \<Rightarrow> (sy, [])
      | R_RISCV_LO12_S \<Rightarrow> (sy, [])
      | R_RISCV_TPREL_HI20 \<Rightarrow> (sy, [])
      | R_RISCV_TPREL_LO12_I \<Rightarrow> (sy, [])
      | R_RISCV_TPREL_LO12_S \<Rightarrow> (sy, [])
      | R_RISCV_TPREL_ADD \<Rightarrow> (sy, [])
      | R_RISCV_ADD8 \<Rightarrow> (sy, [])
      | R_RISCV_ADD16 \<Rightarrow> (sy, [])
      | R_RISCV_ADD32 \<Rightarrow> (sy, [])
      | R_RISCV_ADD64 \<Rightarrow> (sy, [])
      | R_RISCV_SUB8 \<Rightarrow> (sy, [])
      | R_RISCV_SUB16 \<Rightarrow> (sy, [])
      | R_RISCV_SUB32 \<Rightarrow> (sy, [])
      | R_RISCV_SUB64 \<Rightarrow> (sy, [])
      | R_RISCV_ALIGN \<Rightarrow> (sy, [])
      | R_RISCV_RVC_BRANCH \<Rightarrow> (sy, [])
      | R_RISCV_RVC_JUMP \<Rightarrow> (sy, [])
      | R_RISCV_RVC_LUI \<Rightarrow> (sy, [Unsupported_relocation rel])
      | R_RISCV_RELAX \<Rightarrow> (sy, [])
      | R_RISCV_SUB6 \<Rightarrow> (sy, [Unsupported_relocation rel])
      | R_RISCV_SET6 \<Rightarrow> (sy, [Unsupported_relocation rel])
      | R_RISCV_SET8 \<Rightarrow> (sy, [Unsupported_relocation rel])
      | R_RISCV_SET16 \<Rightarrow> (sy, [Unsupported_relocation rel])
      | R_RISCV_SET32 \<Rightarrow> (sy, [Unsupported_relocation rel])
      | R_RISCV_32_PCREL \<Rightarrow> dispatch c table_32_PCREL i rel sy
      | _ \<Rightarrow> (sy, [Unknown_relocation rel]))"

text \<open>
  The body of the loop of \<open>scan_relocations\<close> for the relocation of index \<open>i\<close>, on the
  section (whose file holds the symbols) and the diagnostics recorded so far: the
  \<open>continue\<close> on \<open>R_RISCV_NONE\<close>, the report of an undefined symbol (\<open>report_undef\<close>
  is declared outside this file; the report is recorded by the index of the symbol), the
  marking of an indirect function, and the \<open>switch\<close>.
\<close>

definition scan_rel :: "ctx \<Rightarrow> nat \<Rightarrow> input_section \<times> diag list \<Rightarrow> input_section \<times> diag list" where
  "scan_rel c i s =
     (let sec = fst s; ds = snd s; rel = rels sec ! i in
      if r_type rel = R_RISCV_NONE then s
      else
        let k = unat (r_sym rel); sy = file_symbols sec ! k in
        if \<not> has_file sy then (sec, ds @ [Undefined_symbol k])
        else
          let r = scan_switch c i rel (mark_ifunc sy) in
          (sec\<lparr>file_symbols := (file_symbols sec)[k := fst r]\<rparr>, ds @ snd r))"

definition scan_relocations :: "ctx \<Rightarrow> input_section \<Rightarrow> abort + input_section \<times> diag list" where
  "scan_relocations c sec =
     (if \<not> sh_alloc sec then Inl Assertion_failed
      else
        let sec1 = sec\<lparr>reldyn_offset := file_num_dynrel sec * word_of_nat sizeof_ElfRel\<rparr>
        in Inr (fold (scan_rel c) [0..<length (rels sec1)] (sec1, [])))"

subsection \<open>The kinds the spec lists as unsupported\<close>

text \<open>
  The set of relocation kinds the spec calls unsupported: the TLS forms, RVC-LUI, the
  fixed-value kinds \<open>SUB6\<close>, \<open>SET6\<close>, \<open>SET8\<close>, \<open>SET16\<close>, \<open>SET32\<close>, and the
  32-bit PC-relative kind.
\<close>

definition unsupported_kinds :: "rel_type set" where
  "unsupported_kinds =
     {R_RISCV_TLS_DTPMOD32, R_RISCV_TLS_DTPMOD64, R_RISCV_TLS_DTPREL32,
      R_RISCV_TLS_DTPREL64, R_RISCV_TLS_TPREL32, R_RISCV_TLS_TPREL64,
      R_RISCV_TLS_GOT_HI20, R_RISCV_TLS_GD_HI20, R_RISCV_RVC_LUI,
      R_RISCV_SUB6, R_RISCV_SET6, R_RISCV_SET8, R_RISCV_SET16, R_RISCV_SET32,
      R_RISCV_32_PCREL}"

subsection \<open>Reading a result\<close>

text \<open>The state a run of the applier returns, if it returns one.\<close>

definition result_state :: "abort + apply_state \<Rightarrow> apply_state option" where
  "result_state r = (case r of Inl e \<Rightarrow> None | Inr st \<Rightarrow> Some st)"

subsection \<open>Concrete inputs\<close>

text \<open>
  A context for a shared object, a defined function symbol that is imported, a
  relocation of a given type at offset 0 against symbol 0, and a section at address
  \<open>0x1000\<close> with given relocations and symbols, none of them flagged; its eight bytes
  are \<open>auipc a1, 0\<close> and \<open>ld a1, 0(a1)\<close>.
\<close>

definition example_ctx :: ctx where
  "example_ctx =
     \<lparr>plt_sh_offset = 0x100, plt_sh_addr = 0x10100, gotplt_sh_addr = 0x12000,
      got_sh_addr = 0x11000, plt_hdr_size = 32, plt_size = 16, tls_begin = 0,
      reldyn = Some 0x400, is_relr_reloc = (\<lambda>r. False), output_type = DSO\<rparr>"

definition example_sym :: symbol where
  "example_sym =
     \<lparr>has_file = True, st_type = 2, is_imported = True, is_undef_weak = False,
      sym_value = 0, sym_isec = None, sym_addr = 0x2000, got_addr = 0x11008,
      gotplt_addr = 0x12018, plt_addr = 0x10120, plt_idx = 0, pltgot_idx = 0,
      dynsym_idx = 1, flags = {}, category = Imported_code\<rparr>"

definition example_rel :: "rel_type \<Rightarrow> elf_rel" where
  "example_rel t = \<lparr>r_offset = 0, r_type = t, r_sym = 0, r_addend = 0\<rparr>"

definition example_sec :: "elf_rel list \<Rightarrow> symbol list \<Rightarrow> input_section" where
  "example_sec rs syms =
     \<lparr>sec_id = 1, sh_alloc = True, rels = rs, file_symbols = syms,
      rel_fragments = None, needs_dynrel = map (\<lambda>r. False) rs,
      needs_baserel = map (\<lambda>r. False) rs, out_sh_addr = 0x1000, offset = 0,
      contents = [0x97, 0x05, 0, 0, 0x83, 0xB5, 0x05, 0],
      file_reldyn_offset = 0, file_num_dynrel = 0, reldyn_offset = 0\<rparr>"

definition example_state :: apply_state where
  "example_state = initial_state example_ctx (example_sec [] []) (\<lambda>k. 0)"

subsection \<open>The values of one iteration of the applier's loop\<close>

text \<open>
  For the relocation of index \<open>i\<close> and the state \<open>st\<close> its iteration starts in: the
  symbol, \<open>loc\<close>, the fragment reference, and the values of the macros \<open>S\<close>, \<open>A\<close> and
  \<open>P\<close>; \<open>call_val\<close> is the local \<open>val\<close> of the \<open>R_RISCV_CALL\<close> case, narrowed to the
  \<open>u32\<close> parameter of \<open>write_utype\<close> and \<open>write_itype\<close>.
\<close>

definition rel_sym :: "input_section \<Rightarrow> nat \<Rightarrow> symbol" where
  "rel_sym sec i = file_symbols sec ! unat (r_sym (rels sec ! i))"

definition rel_loc :: "input_section \<Rightarrow> nat \<Rightarrow> nat \<Rightarrow> nat" where
  "rel_loc sec base i = base + unat (r_offset (rels sec ! i))"

definition rel_frag :: "input_section \<Rightarrow> apply_state \<Rightarrow> nat \<Rightarrow> frag_ref option" where
  "rel_frag sec st i = frag_ref_at sec (frag_idx st) i"

definition rel_S :: "input_section \<Rightarrow> apply_state \<Rightarrow> nat \<Rightarrow> u64" where
  "rel_S sec st i = S_of (rel_frag sec st i) (rel_sym sec i)"

definition rel_A :: "input_section \<Rightarrow> apply_state \<Rightarrow> nat \<Rightarrow> u64" where
  "rel_A sec st i = A_of (rel_frag sec st i) (rels sec ! i)"

definition rel_P :: "input_section \<Rightarrow> nat \<Rightarrow> u64" where
  "rel_P sec i = P_of sec (rels sec ! i)"

definition call_val :: "input_section \<Rightarrow> apply_state \<Rightarrow> nat \<Rightarrow> u32" where
  "call_val sec st i =
     ucast (if is_undef_weak (rel_sym sec i) then 0
            else rel_S sec st i + rel_A sec st i - rel_P sec i)"

subsection \<open>Where the stubs are written\<close>

text \<open>
  The byte offset in the buffer of the start of \<open>.plt\<close>, where \<open>write_plt_header\<close>
  writes, and of the entry \<open>PltGotSection<E>::copy_buf\<close> writes for a symbol.
\<close>

definition plt_base :: "ctx \<Rightarrow> nat" where
  "plt_base c = unat (plt_sh_offset c)"

definition pltgot_entry_offset :: "ctx \<Rightarrow> symbol \<Rightarrow> nat" where
  "pltgot_entry_offset c sy = plt_base c + 16 * pltgot_idx sy"

subsection \<open>More concrete inputs\<close>

text \<open>
  A byte of the buffer a run returns; a store that holds the bytes of a list from offset
  0 on and zero elsewhere; a context in which \<open>is_relr_reloc\<close> holds of every
  relocation; a section with one \<open>R_RISCV_64\<close> relocation flagged for a dynamic
  relocation, and one with it flagged for a base relocation; a section with one
  \<open>R_RISCV_CALL_PLT\<close> relocation against a symbol that is or is not undefined-weak,
  over the instructions \<open>auipc ra, 0\<close> and \<open>jalr ra\<close>.
\<close>

definition result_byte :: "abort + apply_state \<Rightarrow> nat \<Rightarrow> u8 option" where
  "result_byte r k = (case r of Inl e \<Rightarrow> None | Inr st \<Rightarrow> Some (buf st k))"

definition mem_result_byte :: "abort + mem \<Rightarrow> nat \<Rightarrow> u8 option" where
  "mem_result_byte r k = (case r of Inl e \<Rightarrow> None | Inr m \<Rightarrow> Some (m k))"

definition mem_of :: "u8 list \<Rightarrow> mem" where
  "mem_of xs = (\<lambda>k. if k < length xs then xs ! k else 0)"

definition relr_ctx :: ctx where
  "relr_ctx = example_ctx\<lparr>is_relr_reloc := (\<lambda>r. True)\<rparr>"

definition dynrel_sec :: input_section where
  "dynrel_sec = (example_sec [example_rel R_RISCV_64] [example_sym])\<lparr>needs_dynrel := [True]\<rparr>"

definition baserel_sec :: input_section where
  "baserel_sec =
     (example_sec [example_rel R_RISCV_64] [example_sym\<lparr>category := Local\<rparr>])\<lparr>needs_baserel := [True]\<rparr>"

definition call_sec :: "bool \<Rightarrow> input_section" where
  "call_sec weak = example_sec [example_rel R_RISCV_CALL_PLT] [example_sym\<lparr>is_undef_weak := weak\<rparr>]"

definition call_state :: "bool \<Rightarrow> apply_state" where
  "call_state weak =
     initial_state example_ctx (call_sec weak) (mem_of [0x97, 0, 0, 0, 0xE7, 0x80, 0, 0])"

subsection \<open>HI20/LO12 pairs: what the statement needs\<close>

text \<open>
  \<open>rel_off\<close> is the offset of a relocation in its section. \<open>rel_width\<close> is the number
  of bytes from that offset on that the applier may write for the relocation of index
  \<open>k\<close>: none for \<open>R_RISCV_NONE\<close>, eight for a flagged relocation (a 64-bit store), and
  otherwise the width of the store of its case in the \<open>switch\<close> (\<open>switch_width\<close>; a call
  writes two instructions). \<open>clear_of sec k a n\<close> says that the relocation of index \<open>k\<close>
  writes none of the \<open>n\<close> bytes from offset \<open>a\<close> of the section on, and
  \<open>restore_clear\<close> says the same of the second loop. \<open>agree_on\<close> says that two stores
  hold the same \<open>n\<close> bytes from \<open>a\<close> on.
\<close>

definition rel_off :: "input_section \<Rightarrow> nat \<Rightarrow> nat" where
  "rel_off sec i = unat (r_offset (rels sec ! i))"

definition switch_width :: "rel_type \<Rightarrow> nat" where
  "switch_width t =
     (case t of
        R_RISCV_32 \<Rightarrow> 4 | R_RISCV_64 \<Rightarrow> 8
      | R_RISCV_BRANCH \<Rightarrow> 4 | R_RISCV_JAL \<Rightarrow> 4
      | R_RISCV_CALL \<Rightarrow> 8 | R_RISCV_CALL_PLT \<Rightarrow> 8
      | R_RISCV_GOT_HI20 \<Rightarrow> 4 | R_RISCV_PCREL_HI20 \<Rightarrow> 4
      | R_RISCV_PCREL_LO12_I \<Rightarrow> 4 | R_RISCV_LO12_I \<Rightarrow> 4 | R_RISCV_TPREL_LO12_I \<Rightarrow> 4
      | R_RISCV_PCREL_LO12_S \<Rightarrow> 4 | R_RISCV_LO12_S \<Rightarrow> 4 | R_RISCV_TPREL_LO12_S \<Rightarrow> 4
      | R_RISCV_HI20 \<Rightarrow> 4 | R_RISCV_TPREL_HI20 \<Rightarrow> 4
      | R_RISCV_ADD16 \<Rightarrow> 2 | R_RISCV_ADD32 \<Rightarrow> 4 | R_RISCV_ADD64 \<Rightarrow> 8
      | R_RISCV_SUB16 \<Rightarrow> 2 | R_RISCV_SUB32 \<Rightarrow> 4 | R_RISCV_SUB64 \<Rightarrow> 8
      | R_RISCV_RVC_BRANCH \<Rightarrow> 2 | R_RISCV_RVC_JUMP \<Rightarrow> 2
      | _ \<Rightarrow> 0)"

definition rel_width :: "input_section \<Rightarrow> nat \<Rightarrow> nat" where
  "rel_width sec k =
     (if r_type (rels sec ! k) = R_RISCV_NONE then 0
      else if needs_dynrel sec ! k \<or> needs_baserel sec ! k then 8
      else switch_width (r_type (rels sec ! k)))"

definition clear_of :: "input_section \<Rightarrow> nat \<Rightarrow> nat \<Rightarrow> nat \<Rightarrow> bool" where
  "clear_of sec k a n =
     (rel_width sec k = 0 \<or>
      unat (r_offset (rels sec ! k)) + rel_width sec k \<le> a \<or>
      a + n \<le> unat (r_offset (rels sec ! k)))"

definition restore_clear :: "elf_rel \<Rightarrow> nat \<Rightarrow> nat \<Rightarrow> bool" where
  "restore_clear r a n =
     (r_type r = R_RISCV_GOT_HI20 \<or> r_type r = R_RISCV_PCREL_HI20 \<longrightarrow>
      unat (r_offset r) + 4 \<le> a \<or> a + n \<le> unat (r_offset r))"

definition agree_on :: "mem \<Rightarrow> mem \<Rightarrow> nat \<Rightarrow> nat \<Rightarrow> bool" where
  "agree_on m m' a n = (\<forall>x. a \<le> x \<and> x < a + n \<longrightarrow> m x = m' x)"

text \<open>
  \<open>returns_ok c sec k\<close>: the iteration of the first loop for the relocation of index
  \<open>k\<close> ends the run neither by a store through the null \<open>dynrel\<close> nor by a failed
  assertion of a \<open>PCREL_LO12\<close> case.
\<close>

definition returns_ok :: "ctx \<Rightarrow> input_section \<Rightarrow> nat \<Rightarrow> bool" where
  "returns_ok c sec k =
     (r_type (rels sec ! k) = R_RISCV_NONE \<or>
      (if needs_dynrel sec ! k then reldyn c \<noteq> None
       else if needs_baserel sec ! k then is_relr_reloc c (rels sec ! k) \<or> reldyn c \<noteq> None
       else (r_type (rels sec ! k) = R_RISCV_PCREL_LO12_I \<or>
             r_type (rels sec ! k) = R_RISCV_PCREL_LO12_S \<longrightarrow>
             sym_isec (rel_sym sec k) = Some (sec_id sec) \<and>
             sym_value (rel_sym sec k) < r_offset (rels sec ! k))))"

text \<open>
  \<open>frag_cursor sec k\<close> is the value of \<open>frag_idx\<close> when the first loop reaches the
  relocation of index \<open>k\<close>. \<open>hi20_val c sec i\<close> is the 32-bit value the first loop
  stores for the \<open>HI20\<close> relocation of index \<open>i\<close>: \<open>G + GOT + A - P\<close> for
  \<open>R_RISCV_GOT_HI20\<close>, and \<open>S + A - P\<close> for \<open>R_RISCV_PCREL_HI20\<close> against a symbol
  that is not undefined-weak.
\<close>

fun frag_cursor :: "input_section \<Rightarrow> nat \<Rightarrow> nat" where
  "frag_cursor sec 0 = 0"
| "frag_cursor sec (Suc k) =
     (if r_type (rels sec ! k) \<noteq> R_RISCV_NONE \<and> frag_ref_at sec (frag_cursor sec k) k \<noteq> None
      then frag_cursor sec k + 1 else frag_cursor sec k)"

definition hi20_val :: "ctx \<Rightarrow> input_section \<Rightarrow> nat \<Rightarrow> u32" where
  "hi20_val c sec i =
     (let rel = rels sec ! i;
          sy = rel_sym sec i;
          fr = frag_ref_at sec (frag_cursor sec i) i;
          S = S_of fr sy;
          A = A_of fr rel;
          P = P_of sec rel
      in if r_type rel = R_RISCV_GOT_HI20 then ucast (G_of c sy + GOT_of c + A - P)
         else ucast (S + A - P))"

text \<open>
  The 12-bit immediate of an S-type instruction, read with \<open>bits\<close>: bits 31..25 of
  the instruction are bits 11..5 of the immediate and bits 11..7 are its bits 4..0, the
  places \<open>stype\<close> puts them. \<open>decode_stype\<close> is that immediate sign-extended from
  12 bits, the offset the processor adds to the base register.
\<close>

definition stype_imm :: "u32 \<Rightarrow> u32" where
  "stype_imm insn = push_bit 5 (bits insn 31 25) OR bits insn 11 7"

definition decode_stype :: "u32 \<Rightarrow> u32" where
  "decode_stype insn = signed_take_bit 11 (stype_imm insn)"

text \<open>
  \<open>write_lo12\<close> is the write of the two \<open>PCREL_LO12\<close> cases by the type of the
  relocation: \<open>write_stype\<close> for \<open>R_RISCV_PCREL_LO12_S\<close>, \<open>write_itype\<close> for
  \<open>R_RISCV_PCREL_LO12_I\<close>.

  The direct computation the spec compares with: one pass that writes the U-type field
  of the instruction at \<open>hloc\<close> and the low 12 bits into the instruction at \<open>lloc\<close>
  from the same value, with no stash and no restore.
\<close>

definition write_lo12 :: "rel_type \<Rightarrow> mem \<Rightarrow> nat \<Rightarrow> u32 \<Rightarrow> mem" where
  "write_lo12 t m loc v =
     (if t = R_RISCV_PCREL_LO12_S then write_stype m loc v else write_itype m loc v)"

definition direct_pair :: "rel_type \<Rightarrow> mem \<Rightarrow> nat \<Rightarrow> nat \<Rightarrow> u32 \<Rightarrow> mem" where
  "direct_pair t m hloc lloc v = write_lo12 t (write_utype m hloc v) lloc v"

text \<open>
  A word of the buffer a run returns. A section of two relocations, a \<open>HI20\<close>
  relocation of a given type at offset 0 against a symbol at \<open>0x3856\<close> (GOT slot at
  \<open>0x11008\<close>) and an \<open>R_RISCV_PCREL_LO12_I\<close> relocation at offset 4 against the label of
  the first instruction; the buffer holds the bytes of the section.
\<close>

definition result_word :: "abort + apply_state \<Rightarrow> nat \<Rightarrow> u32 option" where
  "result_word r a = (case r of Inl e \<Rightarrow> None | Inr st \<Rightarrow> Some (load_u32 (buf st) a))"

definition pair_sec :: "rel_type \<Rightarrow> input_section" where
  "pair_sec t =
     example_sec
       [\<lparr>r_offset = 0, r_type = t, r_sym = 0, r_addend = 0\<rparr>,
        \<lparr>r_offset = 4, r_type = R_RISCV_PCREL_LO12_I, r_sym = 1, r_addend = 0\<rparr>]
       [example_sym\<lparr>sym_addr := 0x3856\<rparr>,
        example_sym\<lparr>sym_value := 0, sym_isec := Some 1, sym_addr := 0x1000\<rparr>]"

definition pair_buf :: mem where
  "pair_buf = mem_of [0x97, 0x05, 0, 0, 0x83, 0xB5, 0x05, 0]"

text \<open>
  The same pair with a store: the section and the buffer hold \<open>auipc a1, 0\<close> and
  \<open>sd a1, 0(a1)\<close>, and the second relocation is \<open>R_RISCV_PCREL_LO12_S\<close>.
\<close>

definition store_pair_sec :: input_section where
  "store_pair_sec =
     (example_sec
        [\<lparr>r_offset = 0, r_type = R_RISCV_PCREL_HI20, r_sym = 0, r_addend = 0\<rparr>,
         \<lparr>r_offset = 4, r_type = R_RISCV_PCREL_LO12_S, r_sym = 1, r_addend = 0\<rparr>]
        [example_sym\<lparr>sym_addr := 0x3856\<rparr>,
         example_sym\<lparr>sym_value := 0, sym_isec := Some 1, sym_addr := 0x1000\<rparr>])
     \<lparr>contents := [0x97, 0x05, 0, 0, 0x23, 0xB0, 0xB5, 0]\<rparr>"

definition store_pair_buf :: mem where
  "store_pair_buf = mem_of [0x97, 0x05, 0, 0, 0x23, 0xB0, 0xB5, 0]"

section \<open>Properties\<close>

subsection \<open>The codec\<close>

lemma bits_take: "bits val hi lo = take_bit (hi - lo + 1) (drop_bit lo val)"
  unfolding bits_def push_bit_of_1 mask_eq_exp_minus_1[symmetric]
  by (rule bit_word_eqI) (auto simp add: bit_simps)

lemma utype_drop: "utype v = push_bit 12 (drop_bit 12 (v + 0x800))"
  unfolding utype_def bits_take
  by (rule bit_word_eqI) (auto simp add: bit_simps)

lemma eleven: "\<not> 12 \<le> (n::nat) \<Longrightarrow> 11 \<le> n \<Longrightarrow> n = 11"
  by arith

lemma sext_itype: "signed_drop_bit 20 (itype v) = signed_take_bit 11 v"
  unfolding itype_def
  by (rule bit_word_eqI) (auto simp add: bit_simps min_def dest: eleven)

lemma stb_int: "signed_take_bit 11 (k::int) = take_bit 12 (k + 2048) - 2048"
  using signed_take_bit_eq_take_bit_shift[of 11 k] by simp

lemma stb_shift: "signed_take_bit 11 (v::u32) = take_bit 12 (v + 0x800) - 0x800"
proof -
  have "signed_take_bit 11 v = word_of_int (signed_take_bit 11 (uint v))"
    by (rule bit_word_eqI) (auto simp add: bit_simps min_def)
  also have "\<dots> = word_of_int (take_bit 12 (uint v + 2048) - 2048)"
    by (simp only: stb_int)
  also have "\<dots> = take_bit 12 (v + 0x800) - 0x800"
    by (simp flip: take_bit_of_int)
  finally show ?thesis .
qed

lemma utype_plus_sext: "utype v + signed_drop_bit 20 (itype v) = v"
proof -
  have "push_bit 12 (drop_bit 12 (v + 0x800)) + take_bit 12 (v + 0x800) = v + 0x800"
    by (rule bits_ident)
  then have "utype v = v + 0x800 - take_bit 12 (v + 0x800)"
    by (simp add: utype_drop algebra_simps)
  then show ?thesis
    by (simp add: sext_itype stb_shift)
qed

lemma mask_hi20: "(0xFFFFF000 :: u32) = push_bit 12 (mask 20)"
  by (simp add: mask_eq_exp_minus_1)

lemma mask_lo12: "(0xFFF :: u32) = mask 12"
  by (simp add: mask_eq_exp_minus_1)

lemma mask_lo20: "(0xFFFFF :: u32) = mask 20"
  by (simp add: mask_eq_exp_minus_1)

lemma decode_utype_utype: "decode_utype (utype v) = utype v"
  unfolding decode_utype_def utype_drop mask_hi20
  by (rule bit_word_eqI) (auto simp add: bit_simps)

lemma decode_utype_or: "decode_utype ((w AND 0xFFF) OR utype v) = decode_utype (utype v)"
  unfolding decode_utype_def utype_drop mask_hi20 mask_lo12
  by (rule bit_word_eqI) (auto simp add: bit_simps)

lemma decode_itype_or: "decode_itype ((w AND 0xFFFFF) OR itype v) = decode_itype (itype v)"
  unfolding decode_itype_def itype_def mask_lo20
  by (rule bit_word_eqI) (auto simp add: bit_simps)

lemma itype_low12: "itype (v AND 0xFFF) = itype v"
  unfolding itype_def mask_lo12
  by (rule bit_word_eqI) (auto simp add: bit_simps)

lemma load_store_u32_same: "load_u32 (store_u32 m a v) a = v"
  unfolding load_u32_def store_u32_def
  apply (rule bit_word_eqI)
  subgoal for n
    by (cases "n < 8"; cases "n < 16"; cases "n < 24") (auto simp add: bit_simps)
  done

lemma decode_pair: "decode_utype (utype v) + decode_itype (itype v) = v"
  by (simp add: decode_utype_utype decode_itype_def utype_plus_sext)

text \<open>
  C9. For every 32-bit immediate \<open>v\<close>, the high part the U-type encoding carries
  (the top 20 bits of \<open>v + 0x800\<close>, shifted left by 12) plus the sign-extended low
  12 bits of \<open>v\<close> carried by the paired I-type encoding is \<open>v\<close> again, in 32-bit
  arithmetic; the same holds of the two instruction words \<open>write_utype\<close> and
  \<open>write_itype\<close> leave in the buffer, whatever the words held before.
\<close>

theorem utype_itype_roundtrip:
  "decode_utype (utype v) + decode_itype (itype (v AND 0xFFF)) = v \<and>
   decode_utype (load_u32 (write_utype m a v) a) +
     decode_itype (load_u32 (write_itype m' b v) b) = v"
  by (simp add: write_utype_def write_itype_def load_store_u32_same decode_utype_or
      decode_itype_or itype_low12 decode_pair)

subsection \<open>The classifier\<close>

lemma category_mark_ifunc: "category (mark_ifunc sy) = category sy"
  by (simp add: mark_ifunc_def)

text \<open>
  C5. For a relocation of type \<open>R_RISCV_64\<close> against a symbol that has a file, the
  classifier hands the Action table of \<open>R_RISCV_64\<close> to the dispatch, on the symbol
  as the marking of indirect functions left it. When the output is a shared object and
  the symbol is local, the cell is \<open>BASEREL\<close>, not \<open>DYNREL\<close>: the classifier sets
  \<open>NEEDS_BASEREL\<close> on the symbol and records no diagnostic, and \<open>NEEDS_DYNREL\<close> is
  among the flags afterwards only if the symbol had it before. When the output is a
  position-dependent executable and the symbol is imported code, the cell is \<open>PLT\<close>:
  the classifier sets \<open>NEEDS_PLT\<close> on the symbol and records no diagnostic.
\<close>

theorem abs64_local_baserel_imported_plt:
  assumes "r_type (rels sec ! i) = R_RISCV_64"
    and "file_symbols sec ! unat (r_sym (rels sec ! i)) = sy"
    and "has_file sy"
  shows "scan_switch c i (rels sec ! i) (mark_ifunc sy) =
           dispatch c table_64 i (rels sec ! i) (mark_ifunc sy) \<and>
         (output_type c = DSO \<and> category sy = Local \<longrightarrow>
            cell table_64 (output_type c) (category sy) = BASEREL \<and>
            cell table_64 (output_type c) (category sy) \<noteq> DYNREL \<and>
            scan_rel c i (sec, ds) =
              (sec\<lparr>file_symbols := (file_symbols sec)
                  [unat (r_sym (rels sec ! i)) :=
                     (mark_ifunc sy)\<lparr>flags := insert NEEDS_BASEREL (flags (mark_ifunc sy))\<rparr>]\<rparr>,
               ds) \<and>
            (NEEDS_DYNREL \<in> insert NEEDS_BASEREL (flags (mark_ifunc sy)) \<longleftrightarrow>
               NEEDS_DYNREL \<in> flags sy)) \<and>
         (output_type c = PDE \<and> category sy = Imported_code \<longrightarrow>
            cell table_64 (output_type c) (category sy) = PLT \<and>
            scan_rel c i (sec, ds) =
              (sec\<lparr>file_symbols := (file_symbols sec)
                  [unat (r_sym (rels sec ! i)) :=
                     (mark_ifunc sy)\<lparr>flags := insert NEEDS_PLT (flags (mark_ifunc sy))\<rparr>]\<rparr>,
               ds))"
proof -
  have sw: "scan_switch c i (rels sec ! i) (mark_ifunc sy) =
      dispatch c table_64 i (rels sec ! i) (mark_ifunc sy)"
    using assms(1) by (simp add: scan_switch_def)
  have sr: "scan_rel c i (sec, ds) =
      (sec\<lparr>file_symbols := (file_symbols sec)
          [unat (r_sym (rels sec ! i)) := fst (dispatch c table_64 i (rels sec ! i) (mark_ifunc sy))]\<rparr>,
       ds @ snd (dispatch c table_64 i (rels sec ! i) (mark_ifunc sy)))"
    using assms by (simp add: scan_rel_def Let_def sw)
  have a: "output_type c = DSO \<and> category sy = Local \<longrightarrow>
      cell table_64 (output_type c) (category sy) = BASEREL \<and>
      cell table_64 (output_type c) (category sy) \<noteq> DYNREL \<and>
      scan_rel c i (sec, ds) =
        (sec\<lparr>file_symbols := (file_symbols sec)
            [unat (r_sym (rels sec ! i)) :=
               (mark_ifunc sy)\<lparr>flags := insert NEEDS_BASEREL (flags (mark_ifunc sy))\<rparr>]\<rparr>,
         ds) \<and>
      (NEEDS_DYNREL \<in> insert NEEDS_BASEREL (flags (mark_ifunc sy)) \<longleftrightarrow>
         NEEDS_DYNREL \<in> flags sy)"
    by (simp add: sr dispatch_def cell_def table_64_def category_mark_ifunc)
      (simp add: mark_ifunc_def)
  have b: "output_type c = PDE \<and> category sy = Imported_code \<longrightarrow>
      cell table_64 (output_type c) (category sy) = PLT \<and>
      scan_rel c i (sec, ds) =
        (sec\<lparr>file_symbols := (file_symbols sec)
            [unat (r_sym (rels sec ! i)) :=
               (mark_ifunc sy)\<lparr>flags := insert NEEDS_PLT (flags (mark_ifunc sy))\<rparr>]\<rparr>,
         ds)"
    by (simp add: sr dispatch_def cell_def table_64_def category_mark_ifunc)
  from sw a b show ?thesis
    by (intro conjI)
qed

text \<open>
  The theorem at two concrete inputs: a local symbol in a shared object, and an imported
  function in a position-dependent executable.
\<close>

theorem abs64_local_baserel_imported_plt_witness:
  "output_type example_ctx = DSO \<and> category (example_sym\<lparr>category := Local\<rparr>) = Local \<and>
   output_type (example_ctx\<lparr>output_type := PDE\<rparr>) = PDE \<and>
   category example_sym = Imported_code \<and> has_file example_sym \<and>
   flags (file_symbols
            (fst (scan_rel example_ctx 0
                    (example_sec [example_rel R_RISCV_64] [example_sym\<lparr>category := Local\<rparr>], []))) ! 0) =
     {NEEDS_BASEREL} \<and>
   snd (scan_rel example_ctx 0
          (example_sec [example_rel R_RISCV_64] [example_sym\<lparr>category := Local\<rparr>], [])) = [] \<and>
   flags (file_symbols
            (fst (scan_rel (example_ctx\<lparr>output_type := PDE\<rparr>) 0
                    (example_sec [example_rel R_RISCV_64] [example_sym], []))) ! 0) =
     {NEEDS_PLT} \<and>
   snd (scan_rel (example_ctx\<lparr>output_type := PDE\<rparr>) 0
          (example_sec [example_rel R_RISCV_64] [example_sym], [])) = []"
  using abs64_local_baserel_imported_plt
    [of "example_sec [example_rel R_RISCV_64] [example_sym\<lparr>category := Local\<rparr>]" 0
        "example_sym\<lparr>category := Local\<rparr>" example_ctx "[]"]
    abs64_local_baserel_imported_plt
    [of "example_sec [example_rel R_RISCV_64] [example_sym]" 0 example_sym
        "example_ctx\<lparr>output_type := PDE\<rparr>" "[]"]
  by (simp add: example_ctx_def example_sym_def example_sec_def example_rel_def
      mark_ifunc_def STT_GNU_IFUNC_def)

text \<open>
  C6 (amended). For a relocation of type \<open>R_RISCV_32\<close> or \<open>R_RISCV_HI20\<close> against a
  symbol that has a file and is imported data or imported code, when the output is a
  shared object: the cell of the table is \<open>ERROR\<close>, the classifier records the
  diagnostic of that cell, and the dispatch sets no flag. The symbol is left as the
  marking of indirect functions made it before the table was consulted: its flags are
  unchanged, except that an indirect function has \<open>NEEDS_GOT\<close> and \<open>NEEDS_PLT\<close> set.
\<close>

theorem abs32_imported_dso_error:
  assumes "r_type (rels sec ! i) = R_RISCV_32 \<or> r_type (rels sec ! i) = R_RISCV_HI20"
    and "output_type c = DSO"
    and "file_symbols sec ! unat (r_sym (rels sec ! i)) = sy"
    and "has_file sy"
    and "category sy = Imported_data \<or> category sy = Imported_code"
  shows "cell table_32_HI20 (output_type c) (category sy) = ERROR \<and>
         scan_rel c i (sec, ds) =
           (sec\<lparr>file_symbols := (file_symbols sec)[unat (r_sym (rels sec ! i)) := mark_ifunc sy]\<rparr>,
            ds @ [Action_error (rels sec ! i) (category sy) DSO]) \<and>
         flags (mark_ifunc sy) =
           (if st_type sy = STT_GNU_IFUNC then insert NEEDS_PLT (insert NEEDS_GOT (flags sy))
            else flags sy)"
proof -
  have cell: "cell table_32_HI20 (output_type c) (category sy) = ERROR"
    using assms(2,5) by (auto simp add: cell_def table_32_HI20_def)
  then have "dispatch c table_32_HI20 i (rels sec ! i) (mark_ifunc sy) =
      (mark_ifunc sy, [Action_error (rels sec ! i) (category sy) DSO])"
    using assms(2) by (simp add: dispatch_def category_mark_ifunc)
  then have "scan_switch c i (rels sec ! i) (mark_ifunc sy) =
      (mark_ifunc sy, [Action_error (rels sec ! i) (category sy) DSO])"
    using assms(1) by (auto simp add: scan_switch_def)
  then show ?thesis
    using assms(1,3,4) cell by (auto simp add: scan_rel_def Let_def mark_ifunc_def)
qed

text \<open>
  The theorem at a concrete input: an \<open>R_RISCV_32\<close> relocation against an imported
  function that is no indirect function; the diagnostic is recorded and no flag is set.
\<close>

theorem abs32_imported_dso_error_witness:
  "output_type example_ctx = DSO \<and> has_file example_sym \<and>
   category example_sym = Imported_code \<and>
   snd (scan_rel example_ctx 0 (example_sec [example_rel R_RISCV_32] [example_sym], [])) =
     [Action_error (example_rel R_RISCV_32) Imported_code DSO] \<and>
   flags (file_symbols
            (fst (scan_rel example_ctx 0 (example_sec [example_rel R_RISCV_32] [example_sym], []))) ! 0) = {}"
  using abs32_imported_dso_error
    [of "example_sec [example_rel R_RISCV_32] [example_sym]" 0 example_ctx example_sym "[]"]
  by (simp add: example_ctx_def example_sym_def example_sec_def example_rel_def
      mark_ifunc_def STT_GNU_IFUNC_def)

text \<open>
  The claim as stated fails for an imported indirect function: the classifier sets
  \<open>NEEDS_GOT\<close> and \<open>NEEDS_PLT\<close> on it before it reaches the \<open>ERROR\<close> cell.
\<close>

theorem abs32_imported_ifunc_counterexample:
  "flags (example_sym\<lparr>st_type := STT_GNU_IFUNC\<rparr>) = {} \<and>
   flags (file_symbols
            (fst (scan_rel example_ctx 0
                    (example_sec [example_rel R_RISCV_32]
                       [example_sym\<lparr>st_type := STT_GNU_IFUNC\<rparr>], []))) ! 0) =
     {NEEDS_PLT, NEEDS_GOT} \<and>
   snd (scan_rel example_ctx 0
          (example_sec [example_rel R_RISCV_32] [example_sym\<lparr>st_type := STT_GNU_IFUNC\<rparr>], [])) =
     [Action_error (example_rel R_RISCV_32) Imported_code DSO]"
  by (simp add: scan_rel_def scan_switch_def dispatch_def cell_def table_32_HI20_def
      mark_ifunc_def example_ctx_def example_sym_def example_sec_def example_rel_def Let_def)

text \<open>
  C4 (amended). For every kind of the unsupported set other than \<open>R_RISCV_32_PCREL\<close>,
  the classifier and the applier record the same diagnostic, \<open>unsupported relocation\<close>
  for that relocation: the classifier when the symbol has a file (an undefined symbol
  is reported instead), the applier when the relocation is flagged neither for a
  dynamic nor for a base relocation (the classifier flags no relocation of these
  kinds); the applier leaves the buffer as it is.
\<close>

theorem unsupported_consistent:
  assumes "r_type (rels sec ! i) \<in> unsupported_kinds - {R_RISCV_32_PCREL}"
    and "has_file (file_symbols sec ! unat (r_sym (rels sec ! i)))"
    and "\<not> needs_dynrel sec ! i" and "\<not> needs_baserel sec ! i"
  shows "snd (scan_rel c i (sec, ds)) = ds @ [Unsupported_relocation (rels sec ! i)] \<and>
         (\<exists>st'. apply_rel c sec base i st = Inr st' \<and>
                diags st' = diags st @ [Unsupported_relocation (rels sec ! i)] \<and>
                buf st' = buf st)"
proof -
  have sw: "scan_switch c i (rels sec ! i) sy = (sy, [Unsupported_relocation (rels sec ! i)])" for sy
    using assms(1) by (auto simp add: unsupported_kinds_def scan_switch_def)
  have ne: "r_type (rels sec ! i) \<noteq> R_RISCV_NONE"
    using assms(1) by (auto simp add: unsupported_kinds_def)
  have scan: "snd (scan_rel c i (sec, ds)) = ds @ [Unsupported_relocation (rels sec ! i)]"
    using assms(2) ne by (simp add: scan_rel_def Let_def sw)
  have ap: "apply_switch c sec base (rels sec ! i) sy loc S A P st1 =
      Inr (st1\<lparr>diags := diags st1 @ [Unsupported_relocation (rels sec ! i)]\<rparr>)" for sy loc S A P st1
    using assms(1) by (auto simp add: unsupported_kinds_def apply_switch_def unsupported_def)
  have "\<exists>st'. apply_rel c sec base i st = Inr st' \<and>
                diags st' = diags st @ [Unsupported_relocation (rels sec ! i)] \<and>
                buf st' = buf st"
    using assms(3,4) ne by (simp add: apply_rel_def Let_def ap split: option.split)
  with scan show ?thesis by simp
qed

text \<open>The theorem at a concrete input: an \<open>R_RISCV_SET8\<close> relocation.\<close>

theorem unsupported_consistent_witness:
  "R_RISCV_SET8 \<in> unsupported_kinds - {R_RISCV_32_PCREL} \<and>
   snd (scan_rel example_ctx 0 (example_sec [example_rel R_RISCV_SET8] [example_sym], [])) =
     [Unsupported_relocation (example_rel R_RISCV_SET8)] \<and>
   (\<exists>st'. apply_rel example_ctx (example_sec [example_rel R_RISCV_SET8] [example_sym]) 0 0
            example_state = Inr st' \<and>
          diags st' = [Unsupported_relocation (example_rel R_RISCV_SET8)] \<and>
          buf st' = buf example_state)"
  using unsupported_consistent
    [of "example_sec [example_rel R_RISCV_SET8] [example_sym]" 0 example_ctx "[]" 0 example_state]
  by (simp add: unsupported_kinds_def example_ctx_def example_sym_def example_sec_def
      example_rel_def example_state_def initial_state_def)

text \<open>
  The claim as stated fails for \<open>R_RISCV_32_PCREL\<close>: against a local symbol in a
  position-dependent executable the classifier consults its Action table and records
  no diagnostic, while the applier records \<open>unsupported relocation\<close>.
\<close>

theorem pcrel32_scan_apply_counterexample:
  "R_RISCV_32_PCREL \<in> unsupported_kinds \<and>
   snd (scan_rel (example_ctx\<lparr>output_type := PDE\<rparr>) 0
          (example_sec [example_rel R_RISCV_32_PCREL] [example_sym\<lparr>category := Local\<rparr>], [])) = [] \<and>
   map_option diags
     (result_state
        (apply_rel (example_ctx\<lparr>output_type := PDE\<rparr>)
           (example_sec [example_rel R_RISCV_32_PCREL] [example_sym\<lparr>category := Local\<rparr>])
           0 0 example_state)) =
     Some [Unsupported_relocation (example_rel R_RISCV_32_PCREL)]"
  by (simp add: unsupported_kinds_def scan_rel_def scan_switch_def dispatch_def cell_def
      table_32_PCREL_def mark_ifunc_def STT_GNU_IFUNC_def apply_rel_def apply_switch_def
      unsupported_def frag_ref_at_def result_state_def
      example_ctx_def example_sym_def example_sec_def example_rel_def example_state_def
      initial_state_def Let_def)

subsection \<open>The byte store and the instruction words\<close>

lemma load_store_u32_other:
  "a + 4 \<le> b \<or> b + 4 \<le> a \<Longrightarrow> load_u32 (store_u32 m b v) a = load_u32 m a"
  unfolding load_u32_def store_u32_def by auto

lemma load_store_u32_at: "b = a \<Longrightarrow> load_u32 (store_u32 m b v) a = v"
  by (simp add: load_store_u32_same)

lemma store_u32_outside: "k < a \<or> a + 4 \<le> k \<Longrightarrow> store_u32 m a v k = m k"
  unfolding store_u32_def by auto

lemma store_u32_below: "k < a \<Longrightarrow> store_u32 m a v k = m k"
  by (simp add: store_u32_outside)

lemma store_u32_above: "a + 4 \<le> k \<Longrightarrow> store_u32 m a v k = m k"
  by (simp add: store_u32_outside)

lemma write_utype_outside: "k < a \<or> a + 4 \<le> k \<Longrightarrow> write_utype m a v k = m k"
  by (simp add: write_utype_def store_u32_outside)

lemma write_itype_outside: "k < a \<or> a + 4 \<le> k \<Longrightarrow> write_itype m a v k = m k"
  by (simp add: write_itype_def store_u32_outside)

lemma store_u32s_outside:
  "k < a \<or> a + 4 * length ws \<le> k \<Longrightarrow> store_u32s m a ws k = m k"
  by (induction ws arbitrary: m a) (auto simp add: store_u32_outside)

lemma load_write_utype_same:
  "load_u32 (write_utype m a v) a = (load_u32 m a AND 0xFFF) OR utype v"
  by (simp add: write_utype_def load_store_u32_same)

lemma load_write_itype_same:
  "load_u32 (write_itype m a v) a = (load_u32 m a AND 0xFFFFF) OR itype v"
  by (simp add: write_itype_def load_store_u32_same)

lemma load_write_utype_other:
  "a + 4 \<le> b \<or> b + 4 \<le> a \<Longrightarrow> load_u32 (write_utype m b v) a = load_u32 m a"
  by (simp add: write_utype_def load_store_u32_other)

lemma load_write_itype_other:
  "a + 4 \<le> b \<or> b + 4 \<le> a \<Longrightarrow> load_u32 (write_itype m b v) a = load_u32 m a"
  by (simp add: write_itype_def load_store_u32_other)

lemma load_store_u32s_4:
  "load_u32 (store_u32s m a [w0, w1, w2, w3]) a = w0"
  "load_u32 (store_u32s m a [w0, w1, w2, w3]) (a + 4) = w1"
  "load_u32 (store_u32s m a [w0, w1, w2, w3]) (a + 8) = w2"
  "load_u32 (store_u32s m a [w0, w1, w2, w3]) (a + 12) = w3"
  by (simp_all add: load_store_u32_at load_store_u32_other)

lemma load_store_u32s_8:
  "load_u32 (store_u32s m a [w0, w1, w2, w3, w4, w5, w6, w7]) a = w0"
  "load_u32 (store_u32s m a [w0, w1, w2, w3, w4, w5, w6, w7]) (a + 4) = w1"
  "load_u32 (store_u32s m a [w0, w1, w2, w3, w4, w5, w6, w7]) (a + 8) = w2"
  "load_u32 (store_u32s m a [w0, w1, w2, w3, w4, w5, w6, w7]) (a + 12) = w3"
  "load_u32 (store_u32s m a [w0, w1, w2, w3, w4, w5, w6, w7]) (a + 16) = w4"
  "load_u32 (store_u32s m a [w0, w1, w2, w3, w4, w5, w6, w7]) (a + 20) = w5"
  "load_u32 (store_u32s m a [w0, w1, w2, w3, w4, w5, w6, w7]) (a + 24) = w6"
  "load_u32 (store_u32s m a [w0, w1, w2, w3, w4, w5, w6, w7]) (a + 28) = w7"
  by (simp_all add: load_store_u32_at load_store_u32_other)

lemma utype_0: "utype 0 = 0"
  by (simp add: utype_drop)

lemma itype_0: "itype 0 = 0"
  by (simp add: itype_def)

lemma itype_field: "drop_bit 20 ((w AND 0xFFFFF) OR itype v) = take_bit 12 v"
  unfolding itype_def mask_lo20
  by (rule bit_word_eqI) (auto simp add: bit_simps)

lemma utype_field: "drop_bit 12 ((w AND 0xFFF) OR utype v) = drop_bit 12 (v + 0x800)"
  unfolding utype_drop mask_lo12
  by (rule bit_word_eqI) (auto simp add: bit_simps dest: bit_imp_le_length)

lemma utype_low12: "(w OR utype d) AND 0xFFF = w AND 0xFFF"
  unfolding utype_drop mask_lo12
  by (rule bit_word_eqI) (auto simp add: bit_simps)

lemma itype_low12_zero: "(w OR itype d) AND 0xFFF = w AND 0xFFF"
  unfolding itype_def mask_lo12
  by (rule bit_word_eqI) (auto simp add: bit_simps)

lemma load_u32_mem_of:
  "load_u32 (mem_of [b0, b1, b2, b3, b4, b5, b6, b7]) 0 =
     ucast b0 OR push_bit 8 (ucast b1) OR push_bit 16 (ucast b2) OR push_bit 24 (ucast b3)"
  "load_u32 (mem_of [b0, b1, b2, b3, b4, b5, b6, b7]) 4 =
     ucast b4 OR push_bit 8 (ucast b5) OR push_bit 16 (ucast b6) OR push_bit 24 (ucast b7)"
  by (simp_all add: load_u32_def mem_of_def)

subsection \<open>The applier: dynamic relocations, calls, one-byte additions\<close>

lemmas rel_defs = rel_sym_def rel_loc_def rel_frag_def rel_S_def rel_A_def rel_P_def

lemmas example_defs = example_ctx_def example_sym_def example_sec_def example_rel_def
  example_state_def initial_state_def

text \<open>
  C3 (amended). For a relocation of a type other than \<open>R_RISCV_NONE\<close>, with the cursor
  \<open>dynrel\<close> at the slot \<open>p\<close>: if it is flagged for a dynamic relocation, the applier
  stores exactly one record, of type \<open>R_RISCV_64\<close>, in the slot \<open>p\<close> and advances the
  cursor by one slot; if it is flagged for a base relocation (and not for a dynamic one)
  and \<open>is_relr_reloc\<close> does not hold of it, the applier stores exactly one record, of
  type \<open>R_RISCV_RELATIVE\<close>, likewise; if \<open>is_relr_reloc\<close> holds of it, the applier
  stores no record and leaves the cursor where it is. The cursor starts at the offset
  of \<open>.rela.dyn\<close> plus the offsets reserved for the file and for the section.
\<close>

theorem dynrel_slots:
  assumes "r_type (rels sec ! i) \<noteq> R_RISCV_NONE" and "dynrel st = Some p"
  shows "(needs_dynrel sec ! i \<longrightarrow>
           (\<exists>st'. apply_rel c sec base i st = Inr st' \<and>
                  dynrel st' = Some (p + sizeof_ElfRel) \<and>
                  reldyn_tab st' = (reldyn_tab st)(p \<mapsto>
                    \<lparr>r_offset = rel_P sec i, r_type = R_RISCV_64,
                     r_sym = ucast (dynsym_idx (rel_sym sec i)),
                     r_addend = rel_A sec st i\<rparr>))) \<and>
         (\<not> needs_dynrel sec ! i \<and> needs_baserel sec ! i \<and>
          \<not> is_relr_reloc c (rels sec ! i) \<longrightarrow>
           (\<exists>st'. apply_rel c sec base i st = Inr st' \<and>
                  dynrel st' = Some (p + sizeof_ElfRel) \<and>
                  reldyn_tab st' = (reldyn_tab st)(p \<mapsto>
                    \<lparr>r_offset = rel_P sec i, r_type = R_RISCV_RELATIVE, r_sym = 0,
                     r_addend = rel_S sec st i + rel_A sec st i\<rparr>))) \<and>
         (\<not> needs_dynrel sec ! i \<and> needs_baserel sec ! i \<and>
          is_relr_reloc c (rels sec ! i) \<longrightarrow>
           (\<exists>st'. apply_rel c sec base i st = Inr st' \<and>
                  dynrel st' = dynrel st \<and> reldyn_tab st' = reldyn_tab st)) \<and>
         dynrel (initial_state c sec m) =
           map_option (\<lambda>off. unat off + unat (file_reldyn_offset sec) + unat (reldyn_offset sec))
             (reldyn c)"
  using assms
  by (auto simp add: apply_rel_def Let_def store_dynrel_def set_buf_def rel_defs
      initial_state_def split: option.split)

text \<open>
  The theorem at two concrete inputs: a relocation flagged for a dynamic relocation
  (one record, in the slot at 1024), and one flagged for a base relocation that
  \<open>is_relr_reloc\<close> covers (no record).
\<close>

theorem dynrel_slots_witness:
  "needs_dynrel dynrel_sec ! 0 \<and>
   (\<exists>st'. apply_rel example_ctx dynrel_sec 0 0 (initial_state example_ctx dynrel_sec (\<lambda>k. 0)) = Inr st' \<and>
          dynrel st' = Some 1048 \<and>
          reldyn_tab st' 1024 =
            Some \<lparr>r_offset = 0x1000, r_type = R_RISCV_64, r_sym = 1, r_addend = 0\<rparr>) \<and>
   needs_baserel baserel_sec ! 0 \<and> is_relr_reloc relr_ctx (rels baserel_sec ! 0) \<and>
   (\<exists>st'. apply_rel relr_ctx baserel_sec 0 0 (initial_state relr_ctx baserel_sec (\<lambda>k. 0)) = Inr st' \<and>
          dynrel st' = Some 1024 \<and> reldyn_tab st' = Map.empty)"
  using dynrel_slots [of dynrel_sec 0 "initial_state example_ctx dynrel_sec (\<lambda>k. 0)" 1024
      example_ctx 0 "\<lambda>k. 0"]
    dynrel_slots [of baserel_sec 0 "initial_state relr_ctx baserel_sec (\<lambda>k. 0)" 1024
      relr_ctx 0 "\<lambda>k. 0"]
  by (auto simp add: dynrel_sec_def baserel_sec_def relr_ctx_def example_defs rel_defs
      sizeof_ElfRel_def frag_ref_at_def A_of_def P_of_def)

text \<open>
  The claim as stated fails for a relocation flagged for a base relocation that
  \<open>is_relr_reloc\<close> covers: \<open>apply_reloc_alloc\<close> returns with the cursor where it
  started and no record in the table.
\<close>

theorem baserel_relr_counterexample:
  "needs_baserel baserel_sec ! 0 \<and>
   map_option dynrel (result_state (apply_reloc_alloc relr_ctx baserel_sec 0 (\<lambda>k. 0))) =
     Some (dynrel (initial_state relr_ctx baserel_sec (\<lambda>k. 0))) \<and>
   map_option reldyn_tab (result_state (apply_reloc_alloc relr_ctx baserel_sec 0 (\<lambda>k. 0))) =
     Some Map.empty"
  by (simp add: apply_reloc_alloc_def apply_rel_def Let_def set_buf_def result_state_def
      baserel_sec_def relr_ctx_def example_defs frag_ref_at_def)

lemma apply_switch_call:
  assumes "r_type rel = R_RISCV_CALL \<or> r_type rel = R_RISCV_CALL_PLT"
  shows "apply_switch c sec base rel sy loc S A P st =
     Inr (st\<lparr>buf := write_itype (write_utype (buf st) loc
                 (ucast (if is_undef_weak sy then 0 else S + A - P))) (loc + 4)
                 (ucast (if is_undef_weak sy then 0 else S + A - P))\<rparr>)"
  using assms by (auto simp add: apply_switch_def set_buf_def Let_def)

text \<open>
  C7. For a relocation of type \<open>R_RISCV_CALL\<close> or \<open>R_RISCV_CALL_PLT\<close> (flagged neither
  for a dynamic nor for a base relocation; the classifier flags no relocation of
  these types), the applier returns, records no diagnostic and writes \<open>val\<close> into the
  U-type instruction at \<open>loc\<close> and into the I-type instruction at \<open>loc + 4\<close>, keeping
  their other bits: the two instructions decode to \<open>val\<close>, and the I-type field is
  the low 12 bits of \<open>val\<close> as they are. For an undefined-weak symbol \<open>val\<close> is 0 and
  both fields are 0; otherwise \<open>val\<close> is \<open>S + A - P\<close>.
\<close>

theorem call_reloc:
  assumes "r_type (rels sec ! i) = R_RISCV_CALL \<or> r_type (rels sec ! i) = R_RISCV_CALL_PLT"
    and "\<not> needs_dynrel sec ! i" and "\<not> needs_baserel sec ! i"
  shows "\<exists>st'. apply_rel c sec base i st = Inr st' \<and> diags st' = diags st \<and>
     buf st' = write_itype (write_utype (buf st) (rel_loc sec base i) (call_val sec st i))
                 (rel_loc sec base i + 4) (call_val sec st i) \<and>
     load_u32 (buf st') (rel_loc sec base i) =
       (load_u32 (buf st) (rel_loc sec base i) AND 0xFFF) OR utype (call_val sec st i) \<and>
     load_u32 (buf st') (rel_loc sec base i + 4) =
       (load_u32 (buf st) (rel_loc sec base i + 4) AND 0xFFFFF) OR itype (call_val sec st i) \<and>
     decode_utype (load_u32 (buf st') (rel_loc sec base i)) +
       decode_itype (load_u32 (buf st') (rel_loc sec base i + 4)) = call_val sec st i \<and>
     drop_bit 20 (load_u32 (buf st') (rel_loc sec base i + 4)) = take_bit 12 (call_val sec st i) \<and>
     (is_undef_weak (rel_sym sec i) \<longrightarrow>
        call_val sec st i = 0 \<and>
        decode_utype (load_u32 (buf st') (rel_loc sec base i)) = 0 \<and>
        drop_bit 20 (load_u32 (buf st') (rel_loc sec base i + 4)) = 0) \<and>
     (\<not> is_undef_weak (rel_sym sec i) \<longrightarrow>
        call_val sec st i = ucast (rel_S sec st i + rel_A sec st i - rel_P sec i))"
proof -
  let ?loc = "rel_loc sec base i" and ?val = "call_val sec st i"
  let ?m = "write_itype (write_utype (buf st) ?loc ?val) (?loc + 4) ?val"
  have ne: "r_type (rels sec ! i) \<noteq> R_RISCV_NONE"
    using assms(1) by auto
  have run: "\<exists>st'. apply_rel c sec base i st = Inr st' \<and> diags st' = diags st \<and> buf st' = ?m"
    using assms(2,3) ne
    by (simp add: apply_rel_def Let_def apply_switch_call [OF assms(1)] rel_defs call_val_def
        split: option.split)
  have hi: "load_u32 ?m ?loc = (load_u32 (buf st) ?loc AND 0xFFF) OR utype ?val"
    by (simp add: load_write_itype_other load_write_utype_same)
  have lo: "load_u32 ?m (?loc + 4) = (load_u32 (buf st) (?loc + 4) AND 0xFFFFF) OR itype ?val"
    by (simp add: load_write_itype_same load_write_utype_other)
  have dec: "decode_utype (load_u32 ?m ?loc) + decode_itype (load_u32 ?m (?loc + 4)) = ?val"
    by (simp only: hi lo decode_utype_or decode_itype_or decode_pair)
  have fld: "drop_bit 20 (load_u32 ?m (?loc + 4)) = take_bit 12 ?val"
    by (simp only: lo itype_field)
  have weak: "is_undef_weak (rel_sym sec i) \<longrightarrow>
        ?val = 0 \<and> decode_utype (load_u32 ?m ?loc) = 0 \<and> drop_bit 20 (load_u32 ?m (?loc + 4)) = 0"
  proof
    assume "is_undef_weak (rel_sym sec i)"
    then have v0: "?val = 0"
      by (simp add: call_val_def)
    have "decode_utype (load_u32 ?m ?loc) = utype ?val"
      by (simp only: hi decode_utype_or decode_utype_utype)
    with v0 fld show "?val = 0 \<and> decode_utype (load_u32 ?m ?loc) = 0 \<and>
        drop_bit 20 (load_u32 ?m (?loc + 4)) = 0"
      by (simp add: utype_0)
  qed
  have strong: "\<not> is_undef_weak (rel_sym sec i) \<longrightarrow>
        ?val = ucast (rel_S sec st i + rel_A sec st i - rel_P sec i)"
    by (simp add: call_val_def)
  from run obtain st' where r: "apply_rel c sec base i st = Inr st'"
    and d: "diags st' = diags st" and b: "buf st' = ?m"
    by blast
  show ?thesis
    using r d hi lo dec fld weak strong unfolding b [symmetric]
    by (intro exI [of _ st']) blast
qed

text \<open>
  The theorem at two concrete inputs: a call from \<open>0x1000\<close> to \<open>0x2000\<close> (the
  displacement \<open>0x1000\<close> goes to the U-type instruction, the I-type field is 0), and
  the same call to an undefined-weak symbol (both fields stay 0).
\<close>

theorem call_reloc_witness:
  "(\<exists>st'. apply_rel example_ctx (call_sec False) 0 0 (call_state False) = Inr st' \<and>
          load_u32 (buf st') 0 = 0x00001097 \<and> load_u32 (buf st') 4 = 0x000080E7) \<and>
   (\<exists>st'. apply_rel example_ctx (call_sec True) 0 0 (call_state True) = Inr st' \<and>
          load_u32 (buf st') 0 = 0x00000097 \<and> load_u32 (buf st') 4 = 0x000080E7)"
  using call_reloc [of "call_sec False" 0 example_ctx 0 "call_state False"]
    call_reloc [of "call_sec True" 0 example_ctx 0 "call_state True"]
  by (auto simp add: call_sec_def call_state_def example_defs rel_defs call_val_def
      frag_ref_at_def S_of_def A_of_def P_of_def load_u32_mem_of utype_drop itype_def)

text \<open>
  C2 (the code differs). The cases \<open>R_RISCV_ADD8\<close> and \<open>R_RISCV_SUB8\<close> of the applier
  are \<open>loc += S + A\<close> and \<open>loc -= S + A\<close>, without the dereference the cases of the
  wider kinds have: with the byte \<open>0x10\<close> at the relocation's offset and \<open>S + A = 1\<close>,
  the byte is still \<open>0x10\<close> after \<open>apply_reloc_alloc\<close>, where the claim has \<open>0x11\<close>
  for \<open>ADD8\<close> and \<open>0x0F\<close> for \<open>SUB8\<close>.
\<close>

theorem add8_sub8_store_nothing:
  "result_byte
     (apply_reloc_alloc example_ctx
        (example_sec [example_rel R_RISCV_ADD8] [example_sym\<lparr>sym_addr := 1\<rparr>]) 0
        (mem_of [0x10])) 0 = Some 0x10 \<and>
   result_byte
     (apply_reloc_alloc example_ctx
        (example_sec [example_rel R_RISCV_SUB8] [example_sym\<lparr>sym_addr := 1\<rparr>]) 0
        (mem_of [0x10])) 0 = Some 0x10"
  by (simp add: result_byte_def apply_reloc_alloc_def apply_rel_def apply_switch_def Let_def
      restore_hi20_def frag_ref_at_def example_defs mem_of_def)

subsection \<open>The applier of the unwind table: the 6-bit kinds\<close>

text \<open>
  C8 (the code differs). \<open>R_RISCV_SUB6\<close> on the byte \<open>0xC5\<close> with the value 1 stores
  \<open>0x04\<close>: the low six bits are those of \<open>5 - 1\<close>, the top two bits are cleared, where
  the claim has \<open>0xC4\<close>. \<open>R_RISCV_SET6\<close> on the byte \<open>0x45\<close> with the value 3 stores
  \<open>0x08\<close>: the value is added to the byte and the top two bits are cleared, where the
  claim has \<open>0x43\<close>.
\<close>

theorem eh_sub6_set6_clear_top_bits:
  "mem_result_byte
     (EhFrameSection_apply_reloc 0 0 (mem_of [0xC5]) (example_rel R_RISCV_SUB6) 0 1) 0 = Some 0x04 \<and>
   mem_result_byte
     (EhFrameSection_apply_reloc 0 0 (mem_of [0x45]) (example_rel R_RISCV_SET6) 0 3) 0 = Some 0x08"
  by (simp add: mem_result_byte_def EhFrameSection_apply_reloc_def Let_def store_u8_def
      example_rel_def mem_of_def)

subsection \<open>The stubs: PLT-via-GOT entries and the PLT header\<close>

lemma pltgot_entry_words:
  "load_u32 (pltgot_entry c sy m) (pltgot_entry_offset c sy) =
     0xe17 OR utype (ucast (got_addr sy - plt_addr sy))"
  "load_u32 (pltgot_entry c sy m) (pltgot_entry_offset c sy + 4) =
     0xe3e03 OR itype (ucast (got_addr sy - plt_addr sy))"
  "load_u32 (pltgot_entry c sy m) (pltgot_entry_offset c sy + 8) = 0x000e0367"
  "load_u32 (pltgot_entry c sy m) (pltgot_entry_offset c sy + 12) = 0x00000013"
  by (simp_all add: pltgot_entry_def pltgot_entry_offset_def plt_base_def Let_def
      plt_entry_data_def load_write_itype_same load_write_itype_other
      load_write_utype_same load_write_utype_other load_store_u32s_4 [simplified])

lemma pltgot_entry_outside:
  "k < pltgot_entry_offset c sy \<or> pltgot_entry_offset c sy + 16 \<le> k \<Longrightarrow>
   pltgot_entry c sy m k = m k"
  by (auto simp add: pltgot_entry_def pltgot_entry_offset_def plt_base_def Let_def
      plt_entry_data_def write_itype_outside write_utype_outside store_u32_below
      store_u32_above)

lemma plt_header_words:
  "load_u32 (write_plt_header c m) (plt_base c) =
     0x397 OR utype (ucast (gotplt_sh_addr c - plt_sh_addr c))"
  "load_u32 (write_plt_header c m) (plt_base c + 4) = 0x41c30333"
  "load_u32 (write_plt_header c m) (plt_base c + 8) =
     0x3be03 OR itype (ucast (gotplt_sh_addr c - plt_sh_addr c))"
  "load_u32 (write_plt_header c m) (plt_base c + 12) = 0xfd430313"
  "load_u32 (write_plt_header c m) (plt_base c + 16) =
     0x38293 OR itype (ucast (gotplt_sh_addr c - plt_sh_addr c))"
  "load_u32 (write_plt_header c m) (plt_base c + 20) = 0x00135313"
  "load_u32 (write_plt_header c m) (plt_base c + 24) = 0x0082b283"
  "load_u32 (write_plt_header c m) (plt_base c + 28) = 0x000e0067"
  by (simp_all add: write_plt_header_def plt_base_def Let_def
      plt0_def load_write_itype_same load_write_itype_other
      load_write_utype_same load_write_utype_other load_store_u32s_8 [simplified])

lemma plt_header_outside:
  "k < plt_base c \<or> plt_base c + 32 \<le> k \<Longrightarrow> write_plt_header c m k = m k"
  by (auto simp add: write_plt_header_def plt_base_def Let_def
      plt0_def write_itype_outside write_utype_outside store_u32_below store_u32_above)

lemma pltgot_header_word_differs:
  assumes "pltgot_idx sy < 2"
  shows "load_u32 (pltgot_entry c sy (write_plt_header c m)) (pltgot_entry_offset c sy) \<noteq>
         load_u32 (write_plt_header c m) (pltgot_entry_offset c sy)"
proof
  let ?e = "pltgot_entry_offset c sy"
  assume eq: "load_u32 (pltgot_entry c sy (write_plt_header c m)) ?e =
              load_u32 (write_plt_header c m) ?e"
  have new: "load_u32 (pltgot_entry c sy (write_plt_header c m)) ?e AND 0xFFF = 0xe17"
    by (simp add: pltgot_entry_words utype_low12)
  from assms consider "pltgot_idx sy = 0" | "pltgot_idx sy = 1"
    by linarith
  then have old: "load_u32 (write_plt_header c m) ?e AND 0xFFF \<noteq> 0xe17"
  proof cases
    case 1
    then have "?e = plt_base c"
      by (simp add: pltgot_entry_offset_def)
    then show ?thesis
      by (simp add: plt_header_words utype_low12)
  next
    case 2
    then have "?e = plt_base c + 16"
      by (simp add: pltgot_entry_offset_def)
    then show ?thesis
      by (simp add: plt_header_words itype_low12_zero)
  qed
  from eq new old show False
    by simp
qed

text \<open>
  C10. The loop of \<open>PltGotSection<E>::copy_buf\<close> writes the entry of a symbol at
  \<open>16 * pltgot_idx\<close> bytes from the offset of \<open>.plt\<close>: it changes no byte outside
  these 16, which afterwards hold the four instructions of the template, the first two
  patched. \<open>write_plt_header\<close> writes the 32 bytes from the same offset on and no other.
  So for a symbol of index 0 or 1 the 16 bytes of the entry lie within the 32 bytes of
  the header, and writing the entry after the header changes the header: the
  instruction word at the start of the entry is no longer the header's.
\<close>

theorem pltgot_entry_overlaps_plt_header:
  "(\<forall>k. k < pltgot_entry_offset c sy \<or> pltgot_entry_offset c sy + 16 \<le> k \<longrightarrow>
        pltgot_entry c sy m k = m k) \<and>
   pltgot_entry_offset c sy = unat (plt_sh_offset c) + 16 * pltgot_idx sy \<and>
   load_u32 (pltgot_entry c sy m) (pltgot_entry_offset c sy) =
     0xe17 OR utype (ucast (got_addr sy - plt_addr sy)) \<and>
   load_u32 (pltgot_entry c sy m) (pltgot_entry_offset c sy + 4) =
     0xe3e03 OR itype (ucast (got_addr sy - plt_addr sy)) \<and>
   load_u32 (pltgot_entry c sy m) (pltgot_entry_offset c sy + 8) = 0x000e0367 \<and>
   load_u32 (pltgot_entry c sy m) (pltgot_entry_offset c sy + 12) = 0x00000013 \<and>
   (\<forall>k. k < plt_base c \<or> plt_base c + 32 \<le> k \<longrightarrow> write_plt_header c m k = m k) \<and>
   plt_base c = unat (plt_sh_offset c) \<and>
   load_u32 (write_plt_header c m) (plt_base c) =
     0x397 OR utype (ucast (gotplt_sh_addr c - plt_sh_addr c)) \<and>
   load_u32 (write_plt_header c m) (plt_base c + 16) =
     0x38293 OR itype (ucast (gotplt_sh_addr c - plt_sh_addr c)) \<and>
   load_u32 (write_plt_header c m) (plt_base c + 28) = 0x000e0067 \<and>
   (pltgot_idx sy < 2 \<longrightarrow>
      plt_base c \<le> pltgot_entry_offset c sy \<and>
      pltgot_entry_offset c sy + 16 \<le> plt_base c + 32 \<and>
      load_u32 (pltgot_entry c sy (write_plt_header c m)) (pltgot_entry_offset c sy) \<noteq>
        load_u32 (write_plt_header c m) (pltgot_entry_offset c sy))"
proof -
  have range: "pltgot_idx sy < 2 \<longrightarrow>
      plt_base c \<le> pltgot_entry_offset c sy \<and>
      pltgot_entry_offset c sy + 16 \<le> plt_base c + 32 \<and>
      load_u32 (pltgot_entry c sy (write_plt_header c m)) (pltgot_entry_offset c sy) \<noteq>
        load_u32 (write_plt_header c m) (pltgot_entry_offset c sy)"
    using pltgot_header_word_differs [of sy c m] by (auto simp add: pltgot_entry_offset_def)
  have offs: "pltgot_entry_offset c sy = unat (plt_sh_offset c) + 16 * pltgot_idx sy"
    "plt_base c = unat (plt_sh_offset c)"
    by (simp_all add: pltgot_entry_offset_def plt_base_def)
  show ?thesis
    apply (intro conjI allI impI)
    apply (rule pltgot_entry_outside, assumption)
    apply (rule offs)
    apply (rule pltgot_entry_words)+
    apply (rule plt_header_outside, assumption)
    apply (rule offs)
    apply (rule plt_header_words)+
    using range apply blast
    using range apply blast
    using range apply blast
    done
qed

text \<open>
  The theorem at a concrete input: the entry of index 0 replaces the first instruction
  of the header, \<open>auipc t2\<close>, by \<open>auipc t3\<close>.
\<close>

theorem pltgot_entry_overlaps_plt_header_witness:
  "pltgot_idx example_sym < 2 \<and>
   pltgot_entry_offset example_ctx example_sym = 256 \<and> plt_base example_ctx = 256 \<and>
   load_u32 (write_plt_header example_ctx (\<lambda>k. 0)) 256 = 0x2397 \<and>
   load_u32 (pltgot_entry example_ctx example_sym (write_plt_header example_ctx (\<lambda>k. 0))) 256
     = 0x1e17 \<and>
   pltgot_entry example_ctx example_sym (\<lambda>k. 0) 255 = 0 \<and>
   load_u32 (pltgot_entry example_ctx example_sym (write_plt_header example_ctx (\<lambda>k. 0))) 256 \<noteq>
     load_u32 (write_plt_header example_ctx (\<lambda>k. 0)) 256"
proof -
  let ?h = "write_plt_header example_ctx (\<lambda>k. 0)"
  have idx: "pltgot_idx example_sym < 2"
    by (simp add: example_sym_def)
  have off: "pltgot_entry_offset example_ctx example_sym = 256" "plt_base example_ctx = 256"
    by (simp_all add: pltgot_entry_offset_def plt_base_def example_ctx_def example_sym_def)
  have d: "(0xe17::u32) OR utype (ucast (got_addr example_sym - plt_addr example_sym)) = 0x1e17"
    by (simp add: example_sym_def utype_drop)
  have dh: "(0x397::u32) OR utype (ucast (gotplt_sh_addr example_ctx - plt_sh_addr example_ctx)) = 0x2397"
    by (simp add: example_ctx_def utype_drop)
  note A = pltgot_entry_overlaps_plt_header [of example_ctx example_sym "\<lambda>k. 0"]
  note B = pltgot_entry_overlaps_plt_header [of example_ctx example_sym ?h]
  from A have "load_u32 ?h (plt_base example_ctx) =
      0x397 OR utype (ucast (gotplt_sh_addr example_ctx - plt_sh_addr example_ctx))"
    by (elim conjE)
  then have h0: "load_u32 ?h 256 = 0x2397"
    by (simp only: off dh)
  from B have "load_u32 (pltgot_entry example_ctx example_sym ?h)
      (pltgot_entry_offset example_ctx example_sym) =
      0xe17 OR utype (ucast (got_addr example_sym - plt_addr example_sym))"
    by (elim conjE)
  then have e0: "load_u32 (pltgot_entry example_ctx example_sym ?h) 256 = 0x1e17"
    by (simp only: off d)
  from A have "\<forall>k. k < pltgot_entry_offset example_ctx example_sym \<or>
      pltgot_entry_offset example_ctx example_sym + 16 \<le> k \<longrightarrow>
      pltgot_entry example_ctx example_sym (\<lambda>k. 0) k = (\<lambda>k. 0) k"
    by (elim conjE)
  then have f: "pltgot_entry example_ctx example_sym (\<lambda>k. 0) 255 = 0"
    by (simp add: off)
  from A have "pltgot_idx example_sym < 2 \<longrightarrow>
      plt_base example_ctx \<le> pltgot_entry_offset example_ctx example_sym \<and>
      pltgot_entry_offset example_ctx example_sym + 16 \<le> plt_base example_ctx + 32 \<and>
      load_u32 (pltgot_entry example_ctx example_sym ?h)
        (pltgot_entry_offset example_ctx example_sym) \<noteq>
      load_u32 ?h (pltgot_entry_offset example_ctx example_sym)"
    by (elim conjE)
  with idx have ne: "load_u32 (pltgot_entry example_ctx example_sym ?h) 256 \<noteq> load_u32 ?h 256"
    by (simp only: off) simp
  show ?thesis
    by (intro conjI) (fact idx off h0 e0 f ne)+
qed

subsection \<open>HI20/LO12 pairs\<close>

lemma store_u16_outside: "k < a \<or> a + 2 \<le> k \<Longrightarrow> store_u16 m a v k = m k"
  unfolding store_u16_def by auto

lemma store_u64_outside: "k < a \<or> a + 8 \<le> k \<Longrightarrow> store_u64 m a v k = m k"
  unfolding store_u64_def by auto

lemma write_stype_outside: "k < a \<or> a + 4 \<le> k \<Longrightarrow> write_stype m a v k = m k"
  by (simp add: write_stype_def store_u32_outside)

lemma write_btype_outside: "k < a \<or> a + 4 \<le> k \<Longrightarrow> write_btype m a v k = m k"
  by (simp add: write_btype_def store_u32_outside)

lemma write_jtype_outside: "k < a \<or> a + 4 \<le> k \<Longrightarrow> write_jtype m a v k = m k"
  by (simp add: write_jtype_def store_u32_outside)

lemma write_cbtype_outside: "k < a \<or> a + 2 \<le> k \<Longrightarrow> write_cbtype m a v k = m k"
  by (simp add: write_cbtype_def store_u16_outside)

lemma write_cjtype_outside: "k < a \<or> a + 2 \<le> k \<Longrightarrow> write_cjtype m a v k = m k"
  by (simp add: write_cjtype_def store_u16_outside)

lemmas outside_simps = store_u16_outside store_u32_outside store_u64_outside
  write_itype_outside write_stype_outside write_btype_outside write_utype_outside
  write_jtype_outside write_cbtype_outside write_cjtype_outside

lemma apply_switch_below:
  assumes "apply_switch c sec base rel sy loc S A P st = Inr st'" and "x < loc"
  shows "buf st' x = buf st x"
  using assms
  by (cases "r_type rel")
    (auto simp add: apply_switch_def Let_def set_buf_def unsupported_def outside_simps
      split: if_splits)

lemma apply_switch_above:
  assumes "apply_switch c sec base rel sy loc S A P st = Inr st'"
    and "loc + switch_width (r_type rel) \<le> x"
  shows "buf st' x = buf st x"
  using assms
  by (cases "r_type rel")
    (auto simp add: apply_switch_def switch_width_def Let_def set_buf_def unsupported_def
      outside_simps split: if_splits)

lemma apply_switch_frag_idx:
  assumes "apply_switch c sec base rel sy loc S A P st = Inr st'"
  shows "frag_idx st' = frag_idx st"
  using assms
  by (cases "r_type rel")
    (auto simp add: apply_switch_def Let_def set_buf_def unsupported_def split: if_splits)

lemma agree_on_refl: "agree_on m m a n"
  by (simp add: agree_on_def)

lemma agree_on_trans: "agree_on m1 m2 a n \<Longrightarrow> agree_on m2 m3 a n \<Longrightarrow> agree_on m1 m3 a n"
  by (simp add: agree_on_def)

lemma load_u32_agree: "agree_on m m' a 4 \<Longrightarrow> load_u32 m a = load_u32 m' a"
  by (simp add: agree_on_def load_u32_def)

lemma apply_rel_outside:
  assumes "apply_rel c sec base k st = Inr st'"
    and "x < base + unat (r_offset (rels sec ! k)) \<or>
         base + unat (r_offset (rels sec ! k)) + rel_width sec k \<le> x"
  shows "buf st' x = buf st x"
proof (cases "r_type (rels sec ! k) = R_RISCV_NONE")
  case True
  with assms(1) show ?thesis
    by (simp add: apply_rel_def)
next
  case False
  show ?thesis
  proof (cases "needs_dynrel sec ! k \<or> needs_baserel sec ! k")
    case True
    with False have "rel_width sec k = 8"
      by (simp add: rel_width_def)
    with assms True False show ?thesis
      by (auto simp add: apply_rel_def Let_def store_dynrel_def set_buf_def store_u64_outside
          split: option.splits if_splits)
  next
    case flags: False
    let ?st1 = "case frag_ref_at sec (frag_idx st) k of
                  None \<Rightarrow> st | Some f \<Rightarrow> st\<lparr>frag_idx := frag_idx st + 1\<rparr>"
    have b1: "buf ?st1 = buf st"
      by (simp split: option.split)
    from flags False have w: "rel_width sec k = switch_width (r_type (rels sec ! k))"
      by (simp add: rel_width_def)
    from assms(1) flags False
    have sw: "apply_switch c sec base (rels sec ! k) (file_symbols sec ! unat (r_sym (rels sec ! k)))
        (base + unat (r_offset (rels sec ! k)))
        (S_of (frag_ref_at sec (frag_idx st) k) (file_symbols sec ! unat (r_sym (rels sec ! k))))
        (A_of (frag_ref_at sec (frag_idx st) k) (rels sec ! k)) (P_of sec (rels sec ! k)) ?st1 = Inr st'"
      by (simp add: apply_rel_def Let_def)
    from assms(2) show ?thesis
    proof
      assume "x < base + unat (r_offset (rels sec ! k))"
      from apply_switch_below [OF sw this] b1 show ?thesis by simp
    next
      assume "base + unat (r_offset (rels sec ! k)) + rel_width sec k \<le> x"
      then have "base + unat (r_offset (rels sec ! k)) + switch_width (r_type (rels sec ! k)) \<le> x"
        by (simp add: w)
      from apply_switch_above [OF sw this] b1 show ?thesis by simp
    qed
  qed
qed

lemma apply_rel_frag_idx:
  assumes "apply_rel c sec base k st = Inr st'"
  shows "frag_idx st' =
     (if r_type (rels sec ! k) \<noteq> R_RISCV_NONE \<and> frag_ref_at sec (frag_idx st) k \<noteq> None
      then frag_idx st + 1 else frag_idx st)"
proof (cases "r_type (rels sec ! k) = R_RISCV_NONE")
  case True
  with assms show ?thesis
    by (simp add: apply_rel_def)
next
  case False
  show ?thesis
  proof (cases "needs_dynrel sec ! k \<or> needs_baserel sec ! k")
    case True
    with assms False show ?thesis
      by (auto simp add: apply_rel_def Let_def store_dynrel_def set_buf_def
          split: option.splits if_splits)
  next
    case flags: False
    let ?st1 = "case frag_ref_at sec (frag_idx st) k of
                  None \<Rightarrow> st | Some f \<Rightarrow> st\<lparr>frag_idx := frag_idx st + 1\<rparr>"
    have f1: "frag_idx ?st1 =
       (if frag_ref_at sec (frag_idx st) k \<noteq> None then frag_idx st + 1 else frag_idx st)"
      by (simp split: option.split)
    from assms flags False
    have sw: "apply_switch c sec base (rels sec ! k) (file_symbols sec ! unat (r_sym (rels sec ! k)))
        (base + unat (r_offset (rels sec ! k)))
        (S_of (frag_ref_at sec (frag_idx st) k) (file_symbols sec ! unat (r_sym (rels sec ! k))))
        (A_of (frag_ref_at sec (frag_idx st) k) (rels sec ! k)) (P_of sec (rels sec ! k)) ?st1 = Inr st'"
      by (simp add: apply_rel_def Let_def)
    from apply_switch_frag_idx [OF sw] f1 False show ?thesis
      by simp
  qed
qed

lemma apply_rel_agree:
  assumes "apply_rel c sec base k st = Inr st'" and "clear_of sec k a n"
  shows "agree_on (buf st') (buf st) (base + a) n"
  unfolding agree_on_def
proof (intro allI impI)
  fix x assume x: "base + a \<le> x \<and> x < base + a + n"
  with assms(2) have "x < base + unat (r_offset (rels sec ! k)) \<or>
         base + unat (r_offset (rels sec ! k)) + rel_width sec k \<le> x"
    unfolding clear_of_def by linarith
  from apply_rel_outside [OF assms(1) this] show "buf st' x = buf st x" .
qed

lemma pass1_append:
  "pass1 c sec base (xs @ ys) st =
     (case pass1 c sec base xs st of Inl e \<Rightarrow> Inl e | Inr st1 \<Rightarrow> pass1 c sec base ys st1)"
  by (induction xs arbitrary: st) (auto split: sum.splits)

lemma pass1_append_Inr:
  assumes "pass1 c sec base (xs @ ys) st = Inr st'"
  obtains s where "pass1 c sec base xs st = Inr s" and "pass1 c sec base ys s = Inr st'"
  using assms by (auto simp add: pass1_append split: sum.splits)

lemma pass1_single: "pass1 c sec base [k] st = apply_rel c sec base k st"
  by (simp split: sum.split)

lemma pass1_agree:
  assumes "pass1 c sec base ks st = Inr st'" and "\<forall>k\<in>set ks. clear_of sec k a n"
  shows "agree_on (buf st') (buf st) (base + a) n"
  using assms
proof (induction ks arbitrary: st)
  case Nil
  then show ?case by (simp add: agree_on_refl)
next
  case (Cons k ks)
  from Cons.prems(1) obtain s where s: "apply_rel c sec base k st = Inr s"
    and r: "pass1 c sec base ks s = Inr st'"
    by (auto split: sum.splits)
  from Cons.prems(2) have "clear_of sec k a n" and "\<forall>k\<in>set ks. clear_of sec k a n"
    by simp_all
  with Cons.IH [OF r] apply_rel_agree [OF s] show ?case
    by (blast intro: agree_on_trans)
qed

lemma pass1_frag_idx:
  assumes "pass1 c sec base [0..<k] st = Inr st'" and "frag_idx st = 0"
  shows "frag_idx st' = frag_cursor sec k"
  using assms
proof (induction k arbitrary: st')
  case 0
  then show ?case by simp
next
  case (Suc k)
  from Suc.prems(1) have "pass1 c sec base ([0..<k] @ [k]) st = Inr st'"
    by simp
  then obtain s where s: "pass1 c sec base [0..<k] st = Inr s"
    and r: "pass1 c sec base [k] s = Inr st'"
    by (rule pass1_append_Inr)
  from Suc.IH [OF s Suc.prems(2)] have "frag_idx s = frag_cursor sec k" .
  moreover from r have "apply_rel c sec base k s = Inr st'"
    by (simp only: pass1_single)
  ultimately show ?case
    using apply_rel_frag_idx [of c sec base k s st'] by simp
qed

lemma apply_rel_hi20:
  assumes "r_type (rels sec ! i) = R_RISCV_GOT_HI20 \<or>
           r_type (rels sec ! i) = R_RISCV_PCREL_HI20 \<and> \<not> is_undef_weak (rel_sym sec i)"
    and "\<not> needs_dynrel sec ! i" and "\<not> needs_baserel sec ! i"
    and "frag_idx st = frag_cursor sec i"
    and "apply_rel c sec base i st = Inr st'"
  shows "buf st' = store_u32 (buf st) (base + unat (r_offset (rels sec ! i))) (hi20_val c sec i)"
  using assms
  by (auto simp add: apply_rel_def apply_switch_def Let_def set_buf_def hi20_val_def rel_sym_def
      split: option.splits)

lemma apply_rel_pcrel_lo12:
  assumes "r_type (rels sec ! j) = R_RISCV_PCREL_LO12_I \<or>
           r_type (rels sec ! j) = R_RISCV_PCREL_LO12_S"
    and "\<not> needs_dynrel sec ! j" and "\<not> needs_baserel sec ! j"
    and "apply_rel c sec base j st = Inr st'"
  shows "buf st' = write_lo12 (r_type (rels sec ! j)) (buf st)
                     (base + unat (r_offset (rels sec ! j)))
                     (load_u32 (buf st) (base + unat (sym_value (rel_sym sec j))))"
  using assms
  by (auto simp add: apply_rel_def apply_switch_def Let_def set_buf_def rel_sym_def
      write_lo12_def split: option.splits if_splits)

lemma restore_hi20_agree:
  assumes "restore_clear r a n"
  shows "agree_on (restore_hi20 sec base r m) m (base + a) n"
  using assms
  by (cases "r_type r")
    (auto simp add: restore_hi20_def restore_word_def restore_clear_def agree_on_def Let_def
      write_utype_outside store_u32_outside)

lemma fold_restore_agree:
  assumes "\<forall>r\<in>set rs. restore_clear r a n"
  shows "agree_on (fold (restore_hi20 sec base) rs m) m (base + a) n"
  using assms
proof (induction rs arbitrary: m)
  case Nil
  then show ?case by (simp add: agree_on_refl)
next
  case (Cons r rs)
  then have "agree_on (fold (restore_hi20 sec base) rs (restore_hi20 sec base r m))
      (restore_hi20 sec base r m) (base + a) n"
    by simp
  moreover from Cons.prems have "agree_on (restore_hi20 sec base r m) m (base + a) n"
    by (simp add: restore_hi20_agree)
  ultimately show ?case
    by (auto intro: agree_on_trans)
qed

lemma clear_of_restore_clear:
  assumes "clear_of sec k a n"
  shows "restore_clear (rels sec ! k) a n"
  using assms
  by (auto simp add: clear_of_def restore_clear_def rel_width_def switch_width_def
      split: if_splits)

lemma restore_hi20_word:
  assumes "r_type r = R_RISCV_GOT_HI20 \<or> r_type r = R_RISCV_PCREL_HI20"
  shows "load_u32 (restore_hi20 sec base r m) (base + unat (r_offset r)) =
     (contents_u32 sec (unat (r_offset r)) AND 0xFFF) OR
       utype (load_u32 m (base + unat (r_offset r)))"
  using assms
  by (auto simp add: restore_hi20_def restore_word_def Let_def load_write_utype_same
      load_store_u32_same)

lemma upt_split:
  assumes "i \<le> n"
  shows "[k..<k + n] = [k..<k + i] @ [k + i..<k + n]"
proof -
  from assms have "k + n = (k + i) + (n - i)"
    by simp
  then show ?thesis
    by (simp only: upt_add_eq_append [of k "k + i" "n - i", simplified])
qed

lemma upt_split3:
  assumes "i < j" and "j < n"
  shows "[0..<n] = [0..<i] @ [i] @ [Suc i..<j] @ [j] @ [Suc j..<n]"
proof -
  from assms have "[0..<n] = [0..<i] @ [i..<n]"
    using upt_split [of i n 0] by simp
  also from assms have "[i..<n] = i # [Suc i..<n]"
    by (simp add: upt_conv_Cons)
  also from assms have "[Suc i..<n] = [Suc i..<j] @ [j..<n]"
    using upt_split [of "j - Suc i" "n - Suc i" "Suc i"] by simp
  also from assms have "[j..<n] = j # [Suc j..<n]"
    by (simp add: upt_conv_Cons)
  finally show ?thesis
    by simp
qed

lemma mask_stype: "(0x1FFF07F :: u32) = mask 7 OR push_bit 12 (mask 13)"
  by (simp add: mask_eq_exp_minus_1)

lemma stype_take: "stype v = push_bit 25 (take_bit 7 (drop_bit 5 v)) OR push_bit 7 (take_bit 5 v)"
  by (simp add: stype_def bits_take)

lemma stype_imm_take:
  "stype_imm w = push_bit 5 (take_bit 7 (drop_bit 25 w)) OR take_bit 5 (drop_bit 7 w)"
  by (simp add: stype_imm_def bits_take)

lemma stype_field: "stype_imm ((w AND 0x1FFF07F) OR stype v) = take_bit 12 v"
  unfolding stype_take stype_imm_take mask_stype
  apply (rule bit_word_eqI)
  subgoal for n
    by (cases "n < 5") (auto simp add: bit_simps)
  done

lemma stype_keeps: "((w AND 0x1FFF07F) OR stype v) AND 0x1FFF07F = w AND 0x1FFF07F"
  unfolding stype_take mask_stype
  by (rule bit_word_eqI) (auto simp add: bit_simps)

lemma sext_take: "signed_take_bit 11 (take_bit 12 (v::u32)) = signed_take_bit 11 v"
  by (rule bit_word_eqI) (auto simp add: bit_simps)

lemma decode_pair_stype:
  "decode_utype ((c AND 0xFFF) OR utype v) + decode_stype ((w AND 0x1FFF07F) OR stype v) = v"
  using utype_plus_sext [of v]
  by (simp add: decode_utype_or decode_utype_utype decode_stype_def stype_field sext_take
      sext_itype)

lemma load_write_stype_same:
  "load_u32 (write_stype m a v) a = (load_u32 m a AND 0x1FFF07F) OR stype v"
  by (simp add: write_stype_def load_store_u32_same)

lemma load_write_stype_other:
  "a + 4 \<le> b \<or> b + 4 \<le> a \<Longrightarrow> load_u32 (write_stype m b v) a = load_u32 m a"
  by (simp add: write_stype_def load_store_u32_other)



lemma agree_on_write_lo12:
  assumes "a + 4 \<le> b \<or> b + 4 \<le> a"
  shows "agree_on (write_lo12 t m b v) m a 4"
  using assms
  by (auto simp add: agree_on_def write_lo12_def write_itype_outside write_stype_outside)

lemma load_write_lo12_other:
  "a + 4 \<le> b \<or> b + 4 \<le> a \<Longrightarrow> load_u32 (write_lo12 t m b v) a = load_u32 m a"
  by (simp add: write_lo12_def load_write_itype_other load_write_stype_other)

lemma load_write_lo12_same:
  "load_u32 m a = load_u32 m' a \<Longrightarrow>
   load_u32 (write_lo12 t m a v) a = load_u32 (write_lo12 t m' a v) a"
  by (simp add: write_lo12_def load_write_itype_same load_write_stype_same)

lemma load_direct_pair:
  assumes "hloc + 4 \<le> lloc"
  shows "load_u32 (direct_pair t m hloc lloc v) hloc = (load_u32 m hloc AND 0xFFF) OR utype v"
    and "load_u32 (direct_pair t m hloc lloc v) lloc = load_u32 (write_lo12 t m lloc v) lloc"
proof -
  from assms show "load_u32 (direct_pair t m hloc lloc v) hloc =
      (load_u32 m hloc AND 0xFFF) OR utype v"
    by (simp add: direct_pair_def load_write_lo12_other load_write_utype_same)
  from assms have "load_u32 (write_utype m hloc v) lloc = load_u32 m lloc"
    by (simp add: load_write_utype_other)
  then show "load_u32 (direct_pair t m hloc lloc v) lloc = load_u32 (write_lo12 t m lloc v) lloc"
    unfolding direct_pair_def by (rule load_write_lo12_same)
qed

lemma hi20_lo12_words:
  assumes ij: "i < j" "j < length (rels sec)"
    and hi: "r_type (rels sec ! i) = R_RISCV_GOT_HI20 \<or>
             r_type (rels sec ! i) = R_RISCV_PCREL_HI20 \<and> \<not> is_undef_weak (rel_sym sec i)"
    and lo: "r_type (rels sec ! j) = R_RISCV_PCREL_LO12_I \<or>
             r_type (rels sec ! j) = R_RISCV_PCREL_LO12_S"
    and fi: "\<not> needs_dynrel sec ! i" "\<not> needs_baserel sec ! i"
    and fj: "\<not> needs_dynrel sec ! j" "\<not> needs_baserel sec ! j"
    and pair: "sym_value (rel_sym sec j) = r_offset (rels sec ! i)"
    and prec: "rel_off sec i + 4 \<le> rel_off sec j"
    and others: "\<forall>k<length (rels sec). k \<noteq> i \<and> k \<noteq> j \<longrightarrow>
                   clear_of sec k (rel_off sec i) 4 \<and> clear_of sec k (rel_off sec j) 4"
    and run: "apply_reloc_alloc c sec base m = Inr st'"
  shows "load_u32 (buf st') (rel_loc sec base i) =
           (contents_u32 sec (rel_off sec i) AND 0xFFF) OR utype (hi20_val c sec i)"
    and "load_u32 (buf st') (rel_loc sec base j) =
           load_u32 (write_lo12 (r_type (rels sec ! j)) m (rel_loc sec base j) (hi20_val c sec i))
             (rel_loc sec base j)"
proof -
  let ?n = "length (rels sec)" and ?rs = "rels sec"
  let ?h = "rel_off sec i" and ?l = "rel_off sec j"
  let ?H = "rel_loc sec base i" and ?L = "rel_loc sec base j"
  let ?v = "hi20_val c sec i" and ?t = "r_type (rels sec ! j)"
  let ?R = "restore_hi20 sec base"
  have H: "?H = base + ?h" and L: "?L = base + ?l"
    by (simp_all add: rel_loc_def rel_off_def)
  have HL: "?H + 4 \<le> ?L"
    using prec by (simp add: H L)
  from run obtain st1 where p1: "pass1 c sec base [0..<?n] (initial_state c sec m) = Inr st1"
    and fin: "buf st' = fold ?R ?rs (buf st1)"
    by (auto simp add: apply_reloc_alloc_def split: sum.splits)
  from p1 have "pass1 c sec base ([0..<i] @ [i] @ [Suc i..<j] @ [j] @ [Suc j..<?n])
      (initial_state c sec m) = Inr st1"
    by (simp only: upt_split3 [OF ij])
  then obtain sa where sa: "pass1 c sec base [0..<i] (initial_state c sec m) = Inr sa"
    and r1: "pass1 c sec base ([i] @ [Suc i..<j] @ [j] @ [Suc j..<?n]) sa = Inr st1"
    by (rule pass1_append_Inr)
  from r1 obtain sb where sb0: "pass1 c sec base [i] sa = Inr sb"
    and r2: "pass1 c sec base ([Suc i..<j] @ [j] @ [Suc j..<?n]) sb = Inr st1"
    by (rule pass1_append_Inr)
  from r2 obtain sc where sc: "pass1 c sec base [Suc i..<j] sb = Inr sc"
    and r3: "pass1 c sec base ([j] @ [Suc j..<?n]) sc = Inr st1"
    by (rule pass1_append_Inr)
  from r3 obtain sd where sd0: "pass1 c sec base [j] sc = Inr sd"
    and se: "pass1 c sec base [Suc j..<?n] sd = Inr st1"
    by (rule pass1_append_Inr)
  from sb0 have sb: "apply_rel c sec base i sa = Inr sb"
    by (simp only: pass1_single)
  from sd0 have sd: "apply_rel c sec base j sc = Inr sd"
    by (simp only: pass1_single)
  have cl1: "\<forall>k\<in>set [0..<i]. clear_of sec k ?h 4" "\<forall>k\<in>set [0..<i]. clear_of sec k ?l 4"
    and cl2: "\<forall>k\<in>set [Suc i..<j]. clear_of sec k ?h 4" "\<forall>k\<in>set [Suc i..<j]. clear_of sec k ?l 4"
    and cl3: "\<forall>k\<in>set [Suc j..<?n]. clear_of sec k ?h 4" "\<forall>k\<in>set [Suc j..<?n]. clear_of sec k ?l 4"
    using others ij by auto
  have "frag_idx (initial_state c sec m) = 0"
    by (simp add: initial_state_def)
  from pass1_frag_idx [OF sa this] have fr: "frag_idx sa = frag_cursor sec i" .
  from apply_rel_hi20 [OF hi fi fr sb] have bsb: "buf sb = store_u32 (buf sa) ?H ?v"
    by (simp add: rel_loc_def)
  from apply_rel_pcrel_lo12 [OF lo fj sd] pair
  have bsd: "buf sd = write_lo12 ?t (buf sc) ?L (load_u32 (buf sc) ?H)"
    by (simp add: rel_loc_def)
  \<comment> \<open>the stashed word survives the first loop\<close>
  have vb: "load_u32 (buf sb) ?H = ?v"
    by (simp add: bsb load_store_u32_same)
  have "agree_on (buf sc) (buf sb) ?H 4"
    using pass1_agree [OF sc cl2(1)] by (simp only: H)
  with vb have vc: "load_u32 (buf sc) ?H = ?v"
    by (simp add: load_u32_agree)
  have "agree_on (buf sd) (buf sc) ?H 4"
    unfolding bsd using HL by (intro agree_on_write_lo12) simp
  with vc have vd: "load_u32 (buf sd) ?H = ?v"
    by (simp add: load_u32_agree)
  have "agree_on (buf st1) (buf sd) ?H 4"
    using pass1_agree [OF se cl3(1)] by (simp only: H)
  with vd have v1: "load_u32 (buf st1) ?H = ?v"
    by (simp add: load_u32_agree)
  \<comment> \<open>the word of the second instruction\<close>
  have "agree_on (buf sa) (buf (initial_state c sec m)) ?L 4"
    using pass1_agree [OF sa cl1(2)] by (simp only: L)
  then have la: "load_u32 (buf sa) ?L = load_u32 m ?L"
    by (simp add: load_u32_agree initial_state_def)
  have lb: "load_u32 (buf sb) ?L = load_u32 m ?L"
    using HL by (simp add: bsb load_store_u32_other la)
  have "agree_on (buf sc) (buf sb) ?L 4"
    using pass1_agree [OF sc cl2(2)] by (simp only: L)
  with lb have lc: "load_u32 (buf sc) ?L = load_u32 m ?L"
    by (simp add: load_u32_agree)
  have ld: "load_u32 (buf sd) ?L = load_u32 (write_lo12 ?t m ?L ?v) ?L"
    unfolding bsd vc using lc by (rule load_write_lo12_same)
  have "agree_on (buf st1) (buf sd) ?L 4"
    using pass1_agree [OF se cl3(2)] by (simp only: L)
  with ld have l1: "load_u32 (buf st1) ?L = load_u32 (write_lo12 ?t m ?L ?v) ?L"
    by (simp add: load_u32_agree)
  \<comment> \<open>the second loop\<close>
  have rsplit: "?rs = take i ?rs @ [?rs ! i] @ drop (Suc i) ?rs"
    using ij by (simp add: id_take_nth_drop)
  have rc: "restore_clear (?rs ! k) ?h 4 \<and> restore_clear (?rs ! k) ?l 4"
    if "k < ?n" "k \<noteq> i" for k
  proof (cases "k = j")
    case True
    with lo show ?thesis by (auto simp add: restore_clear_def)
  next
    case False
    with others that show ?thesis by (simp add: clear_of_restore_clear)
  qed
  have rt: "\<forall>r\<in>set (take i ?rs). restore_clear r ?h 4 \<and> restore_clear r ?l 4"
  proof
    fix r assume "r \<in> set (take i ?rs)"
    then obtain k where "k < length (take i ?rs)" "take i ?rs ! k = r"
      by (auto simp add: in_set_conv_nth)
    with ij have "k < ?n" "k \<noteq> i" "?rs ! k = r"
      by auto
    with rc [of k] show "restore_clear r ?h 4 \<and> restore_clear r ?l 4"
      by simp
  qed
  have rd: "\<forall>r\<in>set (drop (Suc i) ?rs). restore_clear r ?h 4 \<and> restore_clear r ?l 4"
  proof
    fix r assume "r \<in> set (drop (Suc i) ?rs)"
    then obtain k where k: "k < length (drop (Suc i) ?rs)" "drop (Suc i) ?rs ! k = r"
      by (auto simp add: in_set_conv_nth)
    then have "Suc i + k < ?n" "Suc i + k \<noteq> i" "?rs ! (Suc i + k) = r"
      by auto
    with rc [of "Suc i + k"] show "restore_clear r ?h 4 \<and> restore_clear r ?l 4"
      by simp
  qed
  let ?m2 = "fold ?R (take i ?rs) (buf st1)"
  let ?m3 = "?R (?rs ! i) ?m2"
  have fin': "buf st' = fold ?R (drop (Suc i) ?rs) ?m3"
    by (subst fin, subst rsplit) simp
  have hi': "r_type (?rs ! i) = R_RISCV_GOT_HI20 \<or> r_type (?rs ! i) = R_RISCV_PCREL_HI20"
    using hi by blast
  have "agree_on ?m2 (buf st1) ?H 4" "agree_on ?m2 (buf st1) ?L 4"
    using fold_restore_agree [of "take i ?rs" ?h 4 sec base "buf st1"]
      fold_restore_agree [of "take i ?rs" ?l 4 sec base "buf st1"] rt
    by (simp_all add: H L)
  with v1 l1 have v2: "load_u32 ?m2 ?H = ?v"
    and l2: "load_u32 ?m2 ?L = load_u32 (write_lo12 ?t m ?L ?v) ?L"
    by (simp_all add: load_u32_agree)
  have v3: "load_u32 ?m3 ?H = (contents_u32 sec ?h AND 0xFFF) OR utype ?v"
    using restore_hi20_word [OF hi', of sec base ?m2] v2 by (simp add: rel_loc_def rel_off_def)
  have "restore_clear (?rs ! i) ?l 4"
    using prec by (simp add: restore_clear_def rel_off_def)
  then have "agree_on ?m3 ?m2 ?L 4"
    using restore_hi20_agree [of "?rs ! i" ?l 4 sec base ?m2] by (simp add: L)
  with l2 have l3: "load_u32 ?m3 ?L = load_u32 (write_lo12 ?t m ?L ?v) ?L"
    by (simp add: load_u32_agree)
  have "agree_on (buf st') ?m3 ?H 4" "agree_on (buf st') ?m3 ?L 4"
    unfolding fin'
    using fold_restore_agree [of "drop (Suc i) ?rs" ?h 4 sec base ?m3]
      fold_restore_agree [of "drop (Suc i) ?rs" ?l 4 sec base ?m3] rd
    by (simp_all add: H L)
  with v3 l3 show "load_u32 (buf st') ?H = (contents_u32 sec ?h AND 0xFFF) OR utype ?v"
    and "load_u32 (buf st') ?L = load_u32 (write_lo12 ?t m ?L ?v) ?L"
    by (simp_all add: load_u32_agree)
qed

lemma apply_switch_returns:
  assumes "r_type rel = R_RISCV_PCREL_LO12_I \<or> r_type rel = R_RISCV_PCREL_LO12_S \<longrightarrow>
           sym_isec sy = Some (sec_id sec) \<and> sym_value sy < r_offset rel"
  shows "\<exists>st'. apply_switch c sec base rel sy loc S A P st = Inr st' \<and> dynrel st' = dynrel st"
  using assms
  by (cases "r_type rel")
    (auto simp add: apply_switch_def Let_def set_buf_def unsupported_def)

lemma apply_rel_returns:
  assumes "returns_ok c sec k" and "reldyn c \<noteq> None \<longrightarrow> dynrel st \<noteq> None"
  shows "\<exists>st'. apply_rel c sec base k st = Inr st' \<and> (reldyn c \<noteq> None \<longrightarrow> dynrel st' \<noteq> None)"
proof (cases "r_type (rels sec ! k) = R_RISCV_NONE")
  case True
  with assms(2) show ?thesis
    by (simp add: apply_rel_def)
next
  case False
  show ?thesis
  proof (cases "needs_dynrel sec ! k \<or> needs_baserel sec ! k")
    case True
    with assms False show ?thesis
      by (auto simp add: returns_ok_def apply_rel_def Let_def store_dynrel_def set_buf_def
          split: option.splits if_splits)
  next
    case flags: False
    let ?st1 = "case frag_ref_at sec (frag_idx st) k of
                  None \<Rightarrow> st | Some f \<Rightarrow> st\<lparr>frag_idx := frag_idx st + 1\<rparr>"
    have d1: "dynrel ?st1 = dynrel st"
      by (simp split: option.split)
    from assms(1) flags False
    have ok: "r_type (rels sec ! k) = R_RISCV_PCREL_LO12_I \<or>
        r_type (rels sec ! k) = R_RISCV_PCREL_LO12_S \<longrightarrow>
        sym_isec (file_symbols sec ! unat (r_sym (rels sec ! k))) = Some (sec_id sec) \<and>
        sym_value (file_symbols sec ! unat (r_sym (rels sec ! k))) < r_offset (rels sec ! k)"
      by (simp add: returns_ok_def rel_sym_def)
    from apply_switch_returns [OF ok, of c base "base + unat (r_offset (rels sec ! k))"
        "S_of (frag_ref_at sec (frag_idx st) k) (file_symbols sec ! unat (r_sym (rels sec ! k)))"
        "A_of (frag_ref_at sec (frag_idx st) k) (rels sec ! k)" "P_of sec (rels sec ! k)" ?st1]
    obtain st' where "apply_switch c sec base (rels sec ! k)
        (file_symbols sec ! unat (r_sym (rels sec ! k)))
        (base + unat (r_offset (rels sec ! k)))
        (S_of (frag_ref_at sec (frag_idx st) k) (file_symbols sec ! unat (r_sym (rels sec ! k))))
        (A_of (frag_ref_at sec (frag_idx st) k) (rels sec ! k)) (P_of sec (rels sec ! k)) ?st1 = Inr st'"
      and "dynrel st' = dynrel ?st1"
      by blast
    with d1 assms(2) flags False show ?thesis
      by (simp add: apply_rel_def Let_def)
  qed
qed

lemma pass1_returns:
  assumes "\<forall>k\<in>set ks. returns_ok c sec k" and "reldyn c \<noteq> None \<longrightarrow> dynrel st \<noteq> None"
  shows "\<exists>st'. pass1 c sec base ks st = Inr st'"
  using assms
proof (induction ks arbitrary: st)
  case Nil
  then show ?case by simp
next
  case (Cons k ks)
  from Cons.prems have "returns_ok c sec k"
    by simp
  from apply_rel_returns [OF this Cons.prems(2), of base]
  obtain s where s: "apply_rel c sec base k st = Inr s"
    and d: "reldyn c \<noteq> None \<longrightarrow> dynrel s \<noteq> None"
    by blast
  from Cons.prems(1) have "\<forall>k\<in>set ks. returns_ok c sec k"
    by simp
  from Cons.IH [OF this d] s show ?case
    by simp
qed

lemma apply_reloc_alloc_returns:
  assumes "\<forall>k<length (rels sec). returns_ok c sec k"
  shows "\<exists>st'. apply_reloc_alloc c sec base m = Inr st'"
proof -
  have "reldyn c \<noteq> None \<longrightarrow> dynrel (initial_state c sec m) \<noteq> None"
    by (auto simp add: initial_state_def)
  moreover from assms have "\<forall>k\<in>set [0..<length (rels sec)]. returns_ok c sec k"
    by simp
  ultimately obtain st1 where
    "pass1 c sec base [0..<length (rels sec)] (initial_state c sec m) = Inr st1"
    using pass1_returns [of "[0..<length (rels sec)]" c sec "initial_state c sec m" base]
    by blast
  then show ?thesis
    by (simp add: apply_reloc_alloc_def)
qed

lemma utype_keeps_low12: "take_bit 12 ((w AND 0xFFF) OR utype v) = take_bit 12 w"
  unfolding utype_drop mask_lo12
  by (rule bit_word_eqI) (auto simp add: bit_simps)

lemma itype_keeps_low20: "take_bit 20 ((w AND 0xFFFFF) OR itype v) = take_bit 20 w"
  unfolding itype_def mask_lo20
  by (rule bit_word_eqI) (auto simp add: bit_simps)

lemma and_mask_low12: "w AND 0xFFF = w' AND 0xFFF \<longleftrightarrow> take_bit 12 w = take_bit 12 (w'::u32)"
  unfolding mask_lo12 by (simp add: take_bit_eq_mask)


lemma hi20_word_direct:
  "((c AND 0xFFF) OR utype v = (w AND 0xFFF) OR utype v) \<longleftrightarrow>
   take_bit 12 w = take_bit 12 (c::u32)"
proof
  assume "(c AND 0xFFF) OR utype v = (w AND 0xFFF) OR utype v"
  then have "take_bit 12 ((c AND 0xFFF) OR utype v) = take_bit 12 ((w AND 0xFFF) OR utype v)"
    by simp
  then show "take_bit 12 w = take_bit 12 c"
    by (simp only: utype_keeps_low12)
next
  assume "take_bit 12 w = take_bit 12 c"
  then have "w AND 0xFFF = c AND 0xFFF"
    by (simp only: and_mask_low12)
  then show "(c AND 0xFFF) OR utype v = (w AND 0xFFF) OR utype v"
    by simp
qed

text \<open>
  C1 (amended). Take a \<open>HI20\<close> relocation of index \<open>i\<close> (\<open>R_RISCV_GOT_HI20\<close>, or
  \<open>R_RISCV_PCREL_HI20\<close> against a symbol that is not undefined-weak) and a relocation
  of type \<open>R_RISCV_PCREL_LO12_I\<close> or \<open>R_RISCV_PCREL_LO12_S\<close> of a later index \<open>j\<close>
  in the list of relocations of the section, the order the first loop applies them in,
  paired with it: its symbol is in the same input section and its value is the offset
  of the \<open>HI20\<close> instruction, which ends before the \<open>LO12\<close> instruction starts.
  Neither is flagged; no other relocation of the section writes to either instruction
  or ends the run. Then \<open>apply_reloc_alloc\<close> returns, and in the buffer it returns
  the immediate field of the \<open>LO12\<close> instruction (bits 31..20 of the I-type
  instruction, bits 31..25 and 11..7 of the S-type instruction) is the low 12 bits of
  \<open>V\<close> and the immediate field of the \<open>HI20\<close> instruction is the high 20 bits of
  \<open>V + 0x800\<close>, where \<open>V\<close> is \<open>hi20_val\<close>: \<open>S + A - P\<close> for
  \<open>R_RISCV_PCREL_HI20\<close> and \<open>G + GOT + A - P\<close> for \<open>R_RISCV_GOT_HI20\<close>. The other
  bits of the \<open>HI20\<close> instruction are those of the input bytes, the other bits of the
  \<open>LO12\<close> instruction those the buffer held, and the two instructions decode to
  \<open>V\<close>. The \<open>LO12\<close> instruction is the word the direct computation \<open>direct_pair\<close>
  leaves there; the \<open>HI20\<close> instruction is the word \<open>direct_pair\<close> leaves there
  exactly when the buffer the run started with held, at the \<open>HI20\<close> instruction, the
  low 12 bits of the input bytes.
\<close>

theorem hi20_lo12_pair:
  assumes "i < j" and "j < length (rels sec)"
    and "r_type (rels sec ! i) = R_RISCV_GOT_HI20 \<or>
         r_type (rels sec ! i) = R_RISCV_PCREL_HI20 \<and> \<not> is_undef_weak (rel_sym sec i)"
    and "r_type (rels sec ! j) = R_RISCV_PCREL_LO12_I \<or>
         r_type (rels sec ! j) = R_RISCV_PCREL_LO12_S"
    and "\<not> needs_dynrel sec ! i" and "\<not> needs_baserel sec ! i"
    and "\<not> needs_dynrel sec ! j" and "\<not> needs_baserel sec ! j"
    and "sym_isec (rel_sym sec j) = Some (sec_id sec)"
    and "sym_value (rel_sym sec j) = r_offset (rels sec ! i)"
    and "rel_off sec i + 4 \<le> rel_off sec j"
    and "\<forall>k<length (rels sec). k \<noteq> i \<and> k \<noteq> j \<longrightarrow>
           clear_of sec k (rel_off sec i) 4 \<and> clear_of sec k (rel_off sec j) 4 \<and>
           returns_ok c sec k"
  shows "\<exists>st'. apply_reloc_alloc c sec base m = Inr st' \<and>
     (r_type (rels sec ! j) = R_RISCV_PCREL_LO12_I \<longrightarrow>
        drop_bit 20 (load_u32 (buf st') (rel_loc sec base j)) = take_bit 12 (hi20_val c sec i) \<and>
        take_bit 20 (load_u32 (buf st') (rel_loc sec base j)) =
          take_bit 20 (load_u32 m (rel_loc sec base j)) \<and>
        decode_utype (load_u32 (buf st') (rel_loc sec base i)) +
          decode_itype (load_u32 (buf st') (rel_loc sec base j)) = hi20_val c sec i) \<and>
     (r_type (rels sec ! j) = R_RISCV_PCREL_LO12_S \<longrightarrow>
        stype_imm (load_u32 (buf st') (rel_loc sec base j)) = take_bit 12 (hi20_val c sec i) \<and>
        load_u32 (buf st') (rel_loc sec base j) AND 0x1FFF07F =
          load_u32 m (rel_loc sec base j) AND 0x1FFF07F \<and>
        decode_utype (load_u32 (buf st') (rel_loc sec base i)) +
          decode_stype (load_u32 (buf st') (rel_loc sec base j)) = hi20_val c sec i) \<and>
     drop_bit 12 (load_u32 (buf st') (rel_loc sec base i)) =
       drop_bit 12 (hi20_val c sec i + 0x800) \<and>
     take_bit 12 (load_u32 (buf st') (rel_loc sec base i)) =
       take_bit 12 (contents_u32 sec (rel_off sec i)) \<and>
     load_u32 (buf st') (rel_loc sec base j) =
       load_u32 (direct_pair (r_type (rels sec ! j)) m (rel_loc sec base i) (rel_loc sec base j)
                   (hi20_val c sec i)) (rel_loc sec base j) \<and>
     (load_u32 (buf st') (rel_loc sec base i) =
        load_u32 (direct_pair (r_type (rels sec ! j)) m (rel_loc sec base i) (rel_loc sec base j)
                    (hi20_val c sec i)) (rel_loc sec base i) \<longleftrightarrow>
      take_bit 12 (load_u32 m (rel_loc sec base i)) =
        take_bit 12 (contents_u32 sec (rel_off sec i)))"
proof -
  let ?H = "rel_loc sec base i" and ?L = "rel_loc sec base j" and ?v = "hi20_val c sec i"
  let ?t = "r_type (rels sec ! j)"
  have oi: "returns_ok c sec i"
    using assms(3,5,6) by (auto simp add: returns_ok_def)
  have "r_offset (rels sec ! i) < r_offset (rels sec ! j)"
    using assms(11) by (simp add: rel_off_def word_less_nat_alt)
  then have oj: "returns_ok c sec j"
    using assms(7,8,9,10) by (simp add: returns_ok_def)
  have "\<forall>k<length (rels sec). returns_ok c sec k"
    using assms(12) oi oj by blast
  from apply_reloc_alloc_returns [OF this]
  obtain st' where run: "apply_reloc_alloc c sec base m = Inr st'"
    by blast
  have others: "\<forall>k<length (rels sec). k \<noteq> i \<and> k \<noteq> j \<longrightarrow>
      clear_of sec k (rel_off sec i) 4 \<and> clear_of sec k (rel_off sec j) 4"
    using assms(12) by blast
  note w = hi20_lo12_words [OF assms(1-8) assms(10,11) others run]
  have HL: "?H + 4 \<le> ?L"
    using assms(11) by (simp add: rel_loc_def rel_off_def)
  note d = load_direct_pair [OF HL, of ?t m ?v]
  have wi: "load_u32 (buf st') ?L = (load_u32 m ?L AND 0xFFFFF) OR itype ?v"
    if "?t = R_RISCV_PCREL_LO12_I"
    using that by (simp add: w(2) write_lo12_def load_write_itype_same)
  have ws: "load_u32 (buf st') ?L = (load_u32 m ?L AND 0x1FFF07F) OR stype ?v"
    if "?t = R_RISCV_PCREL_LO12_S"
    using that by (simp add: w(2) write_lo12_def load_write_stype_same)
  have 1: "?t = R_RISCV_PCREL_LO12_I \<longrightarrow>
      drop_bit 20 (load_u32 (buf st') ?L) = take_bit 12 ?v \<and>
      take_bit 20 (load_u32 (buf st') ?L) = take_bit 20 (load_u32 m ?L) \<and>
      decode_utype (load_u32 (buf st') ?H) + decode_itype (load_u32 (buf st') ?L) = ?v"
  proof
    assume t: "?t = R_RISCV_PCREL_LO12_I"
    have "drop_bit 20 (load_u32 (buf st') ?L) = take_bit 12 ?v"
      by (simp only: wi [OF t] itype_field)
    moreover have "take_bit 20 (load_u32 (buf st') ?L) = take_bit 20 (load_u32 m ?L)"
      by (simp only: wi [OF t] itype_keeps_low20)
    moreover have "decode_utype (load_u32 (buf st') ?H) + decode_itype (load_u32 (buf st') ?L) = ?v"
      by (simp only: w(1) wi [OF t] decode_utype_or decode_itype_or decode_pair)
    ultimately show "drop_bit 20 (load_u32 (buf st') ?L) = take_bit 12 ?v \<and>
      take_bit 20 (load_u32 (buf st') ?L) = take_bit 20 (load_u32 m ?L) \<and>
      decode_utype (load_u32 (buf st') ?H) + decode_itype (load_u32 (buf st') ?L) = ?v"
      by (intro conjI)
  qed
  have 2: "?t = R_RISCV_PCREL_LO12_S \<longrightarrow>
      stype_imm (load_u32 (buf st') ?L) = take_bit 12 ?v \<and>
      load_u32 (buf st') ?L AND 0x1FFF07F = load_u32 m ?L AND 0x1FFF07F \<and>
      decode_utype (load_u32 (buf st') ?H) + decode_stype (load_u32 (buf st') ?L) = ?v"
  proof
    assume t: "?t = R_RISCV_PCREL_LO12_S"
    have "stype_imm (load_u32 (buf st') ?L) = take_bit 12 ?v"
      by (simp only: ws [OF t] stype_field)
    moreover have "load_u32 (buf st') ?L AND 0x1FFF07F = load_u32 m ?L AND 0x1FFF07F"
      by (simp only: ws [OF t] stype_keeps)
    moreover have "decode_utype (load_u32 (buf st') ?H) + decode_stype (load_u32 (buf st') ?L) = ?v"
      by (simp only: w(1) ws [OF t] decode_pair_stype)
    ultimately show "stype_imm (load_u32 (buf st') ?L) = take_bit 12 ?v \<and>
      load_u32 (buf st') ?L AND 0x1FFF07F = load_u32 m ?L AND 0x1FFF07F \<and>
      decode_utype (load_u32 (buf st') ?H) + decode_stype (load_u32 (buf st') ?L) = ?v"
      by (intro conjI)
  qed
  have 3: "drop_bit 12 (load_u32 (buf st') ?H) = drop_bit 12 (?v + 0x800)"
    by (simp only: w(1) utype_field)
  have 4: "take_bit 12 (load_u32 (buf st') ?H) = take_bit 12 (contents_u32 sec (rel_off sec i))"
    by (simp only: w(1) utype_keeps_low12)
  have 5: "load_u32 (buf st') ?L = load_u32 (direct_pair ?t m ?H ?L ?v) ?L"
    by (simp only: w(2) d(2))
  have 6: "load_u32 (buf st') ?H = load_u32 (direct_pair ?t m ?H ?L ?v) ?H \<longleftrightarrow>
      take_bit 12 (load_u32 m ?H) = take_bit 12 (contents_u32 sec (rel_off sec i))"
    by (simp only: w(1) d(1) hi20_word_direct)
  from run 1 2 3 4 5 6 show ?thesis
    by (intro exI [of _ st'] conjI)
qed

lemmas run_defs = apply_reloc_alloc_def apply_rel_def apply_switch_def Let_def set_buf_def
  restore_hi20_def restore_word_def frag_ref_at_def initial_state_def

lemma pair_sec_facts:
  "length (rels (pair_sec t)) = 2"
  "r_type (rels (pair_sec t) ! 0) = t"
  "r_type (rels (pair_sec t) ! 1) = R_RISCV_PCREL_LO12_I"
  "\<not> needs_dynrel (pair_sec t) ! 0" "\<not> needs_baserel (pair_sec t) ! 0"
  "\<not> needs_dynrel (pair_sec t) ! 1" "\<not> needs_baserel (pair_sec t) ! 1"
  "sym_value (rel_sym (pair_sec t) 1) = r_offset (rels (pair_sec t) ! 0)"
  "sym_isec (rel_sym (pair_sec t) 1) = Some (sec_id (pair_sec t))"
  "rel_off (pair_sec t) 0 = 0" "rel_off (pair_sec t) 1 = 4"
  "rel_loc (pair_sec t) 0 0 = 0" "rel_loc (pair_sec t) 0 1 = 4"
  "rel_off (pair_sec t) (Suc 0) = 4" "rel_loc (pair_sec t) 0 (Suc 0) = 4"
  "\<not> is_undef_weak (rel_sym (pair_sec t) 0)"
  "contents_u32 (pair_sec t) 0 = 0x00000597"
  "load_u32 pair_buf 4 = 0x0005B583"
  "load_u32 pair_buf 0 = 0x00000597"
  "r_type (rels (pair_sec t) ! Suc 0) = R_RISCV_PCREL_LO12_I"
  by (simp_all add: pair_sec_def example_sec_def example_sym_def rel_sym_def rel_off_def
      rel_loc_def contents_u32_def load_u32_def pair_buf_def mem_of_def)

lemma pair_sec_others:
  "\<forall>k<length (rels (pair_sec t)). k \<noteq> 0 \<and> k \<noteq> 1 \<longrightarrow>
      clear_of (pair_sec t) k (rel_off (pair_sec t) 0) 4 \<and>
      clear_of (pair_sec t) k (rel_off (pair_sec t) 1) 4"
  "\<forall>k<length (rels (pair_sec t)). k \<noteq> 0 \<and> k \<noteq> 1 \<longrightarrow>
      clear_of (pair_sec t) k (rel_off (pair_sec t) 0) 4 \<and>
      clear_of (pair_sec t) k (rel_off (pair_sec t) 1) 4 \<and> returns_ok c (pair_sec t) k"
  by (auto simp add: pair_sec_facts)

lemma pair_sec_runs:
  assumes "t = R_RISCV_PCREL_HI20 \<or> t = R_RISCV_GOT_HI20"
  shows "\<exists>st'. apply_reloc_alloc example_ctx (pair_sec t) 0 pair_buf = Inr st'"
  using assms
  by (auto simp add: run_defs pair_sec_def example_sec_def example_sym_def example_ctx_def
      upt_conv_Cons)

lemma pair_sec_vals:
  "hi20_val example_ctx (pair_sec R_RISCV_PCREL_HI20) 0 = 0x2856"
  "hi20_val example_ctx (pair_sec R_RISCV_GOT_HI20) 0 = 0x10008"
  by (simp_all add: hi20_val_def pair_sec_def example_sec_def example_sym_def example_ctx_def
      rel_sym_def frag_ref_at_def S_of_def A_of_def P_of_def G_of_def GOT_of_def Let_def)


lemma store_pair_facts:
  "length (rels store_pair_sec) = 2"
  "r_type (rels store_pair_sec ! 0) = R_RISCV_PCREL_HI20"
  "r_type (rels store_pair_sec ! 1) = R_RISCV_PCREL_LO12_S"
  "\<not> needs_dynrel store_pair_sec ! 0" "\<not> needs_baserel store_pair_sec ! 0"
  "\<not> needs_dynrel store_pair_sec ! 1" "\<not> needs_baserel store_pair_sec ! 1"
  "sym_value (rel_sym store_pair_sec 1) = r_offset (rels store_pair_sec ! 0)"
  "sym_isec (rel_sym store_pair_sec 1) = Some (sec_id store_pair_sec)"
  "rel_off store_pair_sec 0 = 0" "rel_off store_pair_sec 1 = 4"
  "rel_loc store_pair_sec 0 0 = 0" "rel_loc store_pair_sec 0 1 = 4"
  "rel_off store_pair_sec (Suc 0) = 4" "rel_loc store_pair_sec 0 (Suc 0) = 4"
  "\<not> is_undef_weak (rel_sym store_pair_sec 0)"
  "contents_u32 store_pair_sec 0 = 0x00000597"
  "load_u32 store_pair_buf 4 = 0x00B5B023"
  "load_u32 store_pair_buf 0 = 0x00000597"
  "hi20_val example_ctx store_pair_sec 0 = 0x2856"
  "r_type (rels store_pair_sec ! Suc 0) = R_RISCV_PCREL_LO12_S"
  by (simp_all add: store_pair_sec_def example_sec_def example_sym_def example_ctx_def
      rel_sym_def rel_off_def rel_loc_def contents_u32_def load_u32_def store_pair_buf_def
      mem_of_def hi20_val_def frag_ref_at_def S_of_def A_of_def P_of_def Let_def)

lemma store_pair_others:
  "\<forall>k<length (rels store_pair_sec). k \<noteq> 0 \<and> k \<noteq> 1 \<longrightarrow>
      clear_of store_pair_sec k (rel_off store_pair_sec 0) 4 \<and>
      clear_of store_pair_sec k (rel_off store_pair_sec 1) 4 \<and>
      returns_ok c store_pair_sec k"
  by (auto simp add: store_pair_facts)

lemma stype_imm_example: "stype_imm 0x84B5BB23 = 0x856"
  by (simp add: stype_imm_def bits_take)

text \<open>
  The theorem at two concrete inputs, one for each type of the second relocation:
  \<open>auipc a1\<close> and \<open>ld a1\<close>, then \<open>auipc a1\<close> and \<open>sd a1\<close>, at \<open>0x1000\<close>
  against a symbol at \<open>0x3856\<close>, so \<open>V = 0x2856\<close>, whose low 12 bits are negative
  as a 12-bit offset: the fields become 3 and \<open>0x856\<close>.
\<close>

theorem hi20_lo12_pair_witness:
  "result_word (apply_reloc_alloc example_ctx (pair_sec R_RISCV_PCREL_HI20) 0 pair_buf) 0 =
     Some 0x00003597 \<and>
   result_word (apply_reloc_alloc example_ctx (pair_sec R_RISCV_PCREL_HI20) 0 pair_buf) 4 =
     Some 0x8565B583 \<and>
   hi20_val example_ctx (pair_sec R_RISCV_PCREL_HI20) 0 = 0x2856 \<and>
   result_word (apply_reloc_alloc example_ctx store_pair_sec 0 store_pair_buf) 0 =
     Some 0x00003597 \<and>
   result_word (apply_reloc_alloc example_ctx store_pair_sec 0 store_pair_buf) 4 =
     Some 0x84B5BB23 \<and>
   stype_imm 0x84B5BB23 = 0x856 \<and>
   hi20_val example_ctx store_pair_sec 0 = 0x2856"
proof -
  let ?sec = "pair_sec R_RISCV_PCREL_HI20"
  have hyps: "(0::nat) < 1" "1 < length (rels ?sec)"
    "r_type (rels ?sec ! 0) = R_RISCV_GOT_HI20 \<or>
     r_type (rels ?sec ! 0) = R_RISCV_PCREL_HI20 \<and> \<not> is_undef_weak (rel_sym ?sec 0)"
    "r_type (rels ?sec ! 1) = R_RISCV_PCREL_LO12_I \<or>
     r_type (rels ?sec ! 1) = R_RISCV_PCREL_LO12_S"
    "rel_off ?sec 0 + 4 \<le> rel_off ?sec 1"
    using pair_sec_facts(1,2,3,10,11,16) by simp_all
  have pre: "take_bit 12 (load_u32 pair_buf (rel_loc ?sec 0 0)) =
      take_bit 12 (contents_u32 ?sec (rel_off ?sec 0))"
    by (simp add: pair_sec_facts)
  from hi20_lo12_pair [OF hyps(1,2,3,4) pair_sec_facts(4,5,6,7,9,8) hyps(5) pair_sec_others(2),
      of example_ctx 0 pair_buf]
  obtain st' where run: "apply_reloc_alloc example_ctx ?sec 0 pair_buf = Inr st'"
    and lo: "load_u32 (buf st') (rel_loc ?sec 0 1) =
        load_u32 (direct_pair (r_type (rels ?sec ! 1)) pair_buf (rel_loc ?sec 0 0)
          (rel_loc ?sec 0 1) (hi20_val example_ctx ?sec 0)) (rel_loc ?sec 0 1)"
    and hi: "load_u32 (buf st') (rel_loc ?sec 0 0) =
        load_u32 (direct_pair (r_type (rels ?sec ! 1)) pair_buf (rel_loc ?sec 0 0)
          (rel_loc ?sec 0 1) (hi20_val example_ctx ?sec 0)) (rel_loc ?sec 0 0) \<longleftrightarrow>
      take_bit 12 (load_u32 pair_buf (rel_loc ?sec 0 0)) =
        take_bit 12 (contents_u32 ?sec (rel_off ?sec 0))"
    by (elim exE conjE)
  from hi [THEN iffD2, OF pre] lo
  have a: "load_u32 (buf st') 0 = 0x00003597" "load_u32 (buf st') 4 = 0x8565B583"
    by (simp_all add: pair_sec_facts pair_sec_vals load_direct_pair write_lo12_def
        load_write_itype_same utype_drop itype_def)
  let ?sec2 = store_pair_sec
  have hyps2: "(0::nat) < 1" "1 < length (rels ?sec2)"
    "r_type (rels ?sec2 ! 0) = R_RISCV_GOT_HI20 \<or>
     r_type (rels ?sec2 ! 0) = R_RISCV_PCREL_HI20 \<and> \<not> is_undef_weak (rel_sym ?sec2 0)"
    "r_type (rels ?sec2 ! 1) = R_RISCV_PCREL_LO12_I \<or>
     r_type (rels ?sec2 ! 1) = R_RISCV_PCREL_LO12_S"
    "rel_off ?sec2 0 + 4 \<le> rel_off ?sec2 1"
    using store_pair_facts(1,2,3,10,11,16) by simp_all
  have pre2: "take_bit 12 (load_u32 store_pair_buf (rel_loc ?sec2 0 0)) =
      take_bit 12 (contents_u32 ?sec2 (rel_off ?sec2 0))"
    by (simp add: store_pair_facts)
  from hi20_lo12_pair [OF hyps2(1,2,3,4) store_pair_facts(4,5,6,7,9,8) hyps2(5) store_pair_others,
      of example_ctx 0 store_pair_buf]
  obtain st2 where run2: "apply_reloc_alloc example_ctx ?sec2 0 store_pair_buf = Inr st2"
    and lo2: "load_u32 (buf st2) (rel_loc ?sec2 0 1) =
        load_u32 (direct_pair (r_type (rels ?sec2 ! 1)) store_pair_buf (rel_loc ?sec2 0 0)
          (rel_loc ?sec2 0 1) (hi20_val example_ctx ?sec2 0)) (rel_loc ?sec2 0 1)"
    and hi2: "load_u32 (buf st2) (rel_loc ?sec2 0 0) =
        load_u32 (direct_pair (r_type (rels ?sec2 ! 1)) store_pair_buf (rel_loc ?sec2 0 0)
          (rel_loc ?sec2 0 1) (hi20_val example_ctx ?sec2 0)) (rel_loc ?sec2 0 0) \<longleftrightarrow>
      take_bit 12 (load_u32 store_pair_buf (rel_loc ?sec2 0 0)) =
        take_bit 12 (contents_u32 ?sec2 (rel_off ?sec2 0))"
    by (elim exE conjE)
  from hi2 [THEN iffD2, OF pre2] lo2
  have b: "load_u32 (buf st2) 0 = 0x00003597" "load_u32 (buf st2) 4 = 0x84B5BB23"
    by (simp_all add: store_pair_facts load_direct_pair write_lo12_def
        load_write_stype_same utype_drop stype_def bits_take)
  from run a run2 b show ?thesis
    by (simp add: result_word_def pair_sec_vals store_pair_facts stype_imm_example)
qed

text \<open>
  The order in the list matters. With the \<open>R_RISCV_PCREL_LO12_I\<close> relocation listed
  before its \<open>HI20\<close> relocation, the first loop reads the instruction \<open>auipc\<close>
  itself, before the value is stored over it: the field of the second instruction
  becomes \<open>0x597\<close>, not the low 12 bits \<open>0x856\<close> of \<open>V\<close>.
\<close>

lemma lo12_listed_first_reads_instruction:
  "result_word
     (apply_reloc_alloc example_ctx
        ((pair_sec R_RISCV_PCREL_HI20)\<lparr>rels := rev (rels (pair_sec R_RISCV_PCREL_HI20))\<rparr>)
        0 pair_buf) 4 = Some 0x5975B583 \<and>
   drop_bit 20 (0x5975B583 :: u32) = 0x597 \<and>
   take_bit 12 (hi20_val example_ctx (pair_sec R_RISCV_PCREL_HI20) 0) = 0x856"
proof -
  let ?sec = "(pair_sec R_RISCV_PCREL_HI20)\<lparr>rels := rev (rels (pair_sec R_RISCV_PCREL_HI20))\<rparr>"
  have w: "load_u32 pair_buf 0 = 0x00000597" "load_u32 pair_buf 4 = 0x0005B583"
    by (simp_all add: pair_sec_facts)
  have "result_word (apply_reloc_alloc example_ctx ?sec 0 pair_buf) 4 =
      Some ((load_u32 pair_buf 4 AND 0xFFFFF) OR itype (load_u32 pair_buf 0))"
    by (simp add: run_defs result_word_def pair_sec_def example_sec_def example_sym_def
        example_ctx_def upt_conv_Cons S_of_def A_of_def P_of_def
        load_write_utype_other load_store_u32_other load_write_itype_same)
  then show ?thesis
    by (simp add: w itype_def pair_sec_vals)
qed

text \<open>
  The claim as stated fails for \<open>R_RISCV_GOT_HI20\<close>: the fields are those of
  \<open>G + GOT + A - P = 0x10008\<close> (the GOT slot of the symbol), not those of
  \<open>S + A - P = 0x2856\<close>.
\<close>

theorem got_hi20_pair_counterexample:
  "result_word (apply_reloc_alloc example_ctx (pair_sec R_RISCV_GOT_HI20) 0 pair_buf) 4 =
     Some 0x0085B583 \<and>
   drop_bit 20 (0x0085B583 :: u32) \<noteq>
     take_bit 12 (ucast
       (rel_S (pair_sec R_RISCV_GOT_HI20) (initial_state example_ctx (pair_sec R_RISCV_GOT_HI20) pair_buf) 0 +
        rel_A (pair_sec R_RISCV_GOT_HI20) (initial_state example_ctx (pair_sec R_RISCV_GOT_HI20) pair_buf) 0 -
        rel_P (pair_sec R_RISCV_GOT_HI20) 0) :: u32) \<and>
   result_word (apply_reloc_alloc example_ctx (pair_sec R_RISCV_GOT_HI20) 0 pair_buf) 0 =
     Some 0x00010597 \<and>
   drop_bit 12 (0x00010597 :: u32) \<noteq>
     drop_bit 12 ((ucast
       (rel_S (pair_sec R_RISCV_GOT_HI20) (initial_state example_ctx (pair_sec R_RISCV_GOT_HI20) pair_buf) 0 +
        rel_A (pair_sec R_RISCV_GOT_HI20) (initial_state example_ctx (pair_sec R_RISCV_GOT_HI20) pair_buf) 0 -
        rel_P (pair_sec R_RISCV_GOT_HI20) 0) :: u32) + 0x800)"
proof -
  let ?sec = "pair_sec R_RISCV_GOT_HI20"
  obtain st' where run: "apply_reloc_alloc example_ctx ?sec 0 pair_buf = Inr st'"
    using pair_sec_runs [of R_RISCV_GOT_HI20] by blast
  have hyps: "(0::nat) < 1" "1 < length (rels ?sec)"
    "r_type (rels ?sec ! 0) = R_RISCV_GOT_HI20 \<or>
     r_type (rels ?sec ! 0) = R_RISCV_PCREL_HI20 \<and> \<not> is_undef_weak (rel_sym ?sec 0)"
    "rel_off ?sec 0 + 4 \<le> rel_off ?sec 1"
    using pair_sec_facts(1,2,10,11,16) by simp_all
  have lo: "r_type (rels ?sec ! 1) = R_RISCV_PCREL_LO12_I \<or>
      r_type (rels ?sec ! 1) = R_RISCV_PCREL_LO12_S"
    by (simp add: pair_sec_facts)
  note w = hi20_lo12_words [OF hyps(1,2,3) lo pair_sec_facts(4,5,6,7,8) hyps(4)
      pair_sec_others(1) run]
  from w have "load_u32 (buf st') 0 = 0x00010597" and "load_u32 (buf st') 4 = 0x0085B583"
    by (simp_all add: pair_sec_facts pair_sec_vals utype_drop itype_def write_lo12_def
        load_write_itype_same)
  moreover have "ucast
       (rel_S ?sec (initial_state example_ctx ?sec pair_buf) 0 +
        rel_A ?sec (initial_state example_ctx ?sec pair_buf) 0 - rel_P ?sec 0) = (0x2856 :: u32)"
    by (simp add: rel_defs initial_state_def pair_sec_def example_sec_def example_sym_def
        frag_ref_at_def S_of_def A_of_def P_of_def)
  ultimately show ?thesis
    using run by (simp add: result_word_def)
qed

end
